theory Spec2Isabelle
  imports Complex_Main "HOL-Library.Sublist"
begin

section \<open>trace-mark: the annotation model of App.tsx\<close>

text \<open>
  A shallow embedding of the annotation engine of \<^verbatim>\<open>src/App.tsx\<close>: the three
  annotation collections, the selection and clipboard state, the pointer handlers and
  the geometry helpers.

  JavaScript numbers are modelled as exact reals (\<^typ>\<open>real\<close>): rounding of
  IEEE doubles, NaN and the infinities are outside the model. A division therefore
  agrees with the code only where the divisor is not zero, and every statement below
  that goes through a division says so. Identifiers come from \<^verbatim>\<open>Date.now()\<close>,
  an integer number of milliseconds: every operation that reads the clock takes the
  reading as its first argument \<open>now\<close>. Strings that are only displayed (SVG path data,
  point lists) are modelled by the structured value they are printed from.
\<close>

subsection \<open>Types (App.tsx 17--66)\<close>

datatype LineStyle = solid | dashed | dotted | dotdash | wavy

datatype ToolMode = hand | select | line_tool | area_tool | text_tool

datatype AreaShapeType = rect_shape | circle_shape | triangle_shape | freeform

datatype TextFont = system | serif | mono

datatype OutlineStyle = o_solid | o_dashed | cloud | zigzag

record Point =
  p_x :: real
  p_y :: real

record Line =
  l_id :: int
  l_x1 :: real
  l_y1 :: real
  l_x2 :: real
  l_y2 :: real
  l_style :: LineStyle
  l_thickness :: real
  l_arrowEnd :: bool
  l_color :: string

record TextBox =
  t_id :: int
  t_x :: real
  t_y :: real
  t_width :: real
  t_height :: real
  t_text :: string
  t_textColor :: string
  t_fontSize :: real
  t_fontFamily :: TextFont
  t_bold :: bool
  t_italic :: bool
  t_underline :: bool
  t_backgroundColor :: string
  t_solidBackground :: bool

record AreaShape =
  a_id :: int
  a_type :: AreaShapeType
  a_points :: "Point list"
  a_outlineStyle :: OutlineStyle
  a_thickness :: real
  a_color :: string
  a_fillOpacity :: real

subsection \<open>Geometry helpers\<close>

text \<open>\<^verbatim>\<open>Math.hypot\<close>, \<^verbatim>\<open>Math.round\<close> (halves go up) on exact reals.\<close>

definition hypot :: "real \<Rightarrow> real \<Rightarrow> real" where
  "hypot a b = sqrt (a * a + b * b)"

definition js_round :: "real \<Rightarrow> int" where
  "js_round v = \<lfloor>v + 1 / 2\<rfloor>"

text \<open>The commands of an SVG path string: \<^verbatim>\<open>M x y\<close>, \<^verbatim>\<open>Q cx cy px py\<close>,
  \<^verbatim>\<open>L x y\<close>, \<^verbatim>\<open>Z\<close>.\<close>

datatype PathCmd =
    MoveTo real real
  | QuadTo real real real real
  | LineTo real real
  | ClosePath

text \<open>The body of the \<^verbatim>\<open>for\<close> loop of \<^verbatim>\<open>makeWavyPath\<close> (App.tsx 123--131) at
  index \<open>i\<close>: the command it appends to \<open>d\<close>.\<close>

definition wavyStep ::
  "real \<Rightarrow> real \<Rightarrow> real \<Rightarrow> real \<Rightarrow> real \<Rightarrow> real \<Rightarrow> real \<Rightarrow> int \<Rightarrow> PathCmd" where
  "wavyStep x1 y1 stepX stepY nx ny amplitude i =
     (let px = x1 + stepX * of_int i;
          py = y1 + stepY * of_int i;
          sign = (if i mod 2 = 0 then - 1 else 1);
          offset = sign * amplitude;
          cx = px + nx * offset;
          cy = py + ny * offset
      in QuadTo cx cy px py)"

function wavyLoop ::
  "real \<Rightarrow> real \<Rightarrow> real \<Rightarrow> real \<Rightarrow> real \<Rightarrow> real \<Rightarrow> real \<Rightarrow> int \<Rightarrow> int
     \<Rightarrow> PathCmd list \<Rightarrow> PathCmd list" where
  "wavyLoop x1 y1 stepX stepY nx ny amplitude segments i d =
     (if i \<le> segments
      then wavyLoop x1 y1 stepX stepY nx ny amplitude segments (i + 1)
             (d @ [wavyStep x1 y1 stepX stepY nx ny amplitude i])
      else d)"
  by pat_completeness auto
termination
  by (relation "measure (\<lambda>(x1, y1, stepX, stepY, nx, ny, amplitude, segments, i, d).
        nat (segments + 1 - i))") auto

declare wavyLoop.simps [simp del]

text \<open>\<^verbatim>\<open>makeWavyPath\<close> (App.tsx 104--133). With \<open>wavelength = 0\<close> the quotient is
  \<^verbatim>\<open>Infinity\<close>, so is \<open>segments\<close>, and the loop never ends: the result is \<open>None\<close>.\<close>

definition makeWavyPath ::
  "real \<Rightarrow> real \<Rightarrow> real \<Rightarrow> real \<Rightarrow> real \<Rightarrow> real \<Rightarrow> PathCmd list option" where
  "makeWavyPath x1 y1 x2 y2 amplitude wavelength =
     (if wavelength = 0 then None
      else
        let dx = x2 - x1;
            dy = y2 - y1;
            length = (if hypot dx dy = 0 then 1 else hypot dx dy);
            segments = max 2 (js_round (length / wavelength));
            stepX = dx / of_int segments;
            stepY = dy / of_int segments;
            nx = - dy / length;
            ny = dx / length
        in Some (wavyLoop x1 y1 stepX stepY nx ny amplitude segments 1 [MoveTo x1 y1]))"

text \<open>\<^verbatim>\<open>buildFreeformPath\<close> (App.tsx 164--177); the empty string is the empty path.\<close>

definition buildFreeformPath :: "Point list \<Rightarrow> real \<Rightarrow> real \<Rightarrow> PathCmd list" where
  "buildFreeformPath pts width height =
     (case pts of
        [] \<Rightarrow> []
      | first # rest \<Rightarrow>
          MoveTo (p_x first * width) (p_y first * height)
            # map (\<lambda>p. LineTo (p_x p * width) (p_y p * height)) rest
            @ [ClosePath])"

record CanvasSize =
  cs_width :: real
  cs_height :: real

text \<open>The element drawn for an area (App.tsx 1849--2003, the body of
  \<^verbatim>\<open>areas.map\<close> in the overlay): nothing for a shape without points or a
  non-freeform shape with fewer than two, otherwise a path, a rectangle
  \<open>x y width height\<close>, a circle \<open>cx cy r\<close> or the triangle's three corners, all in
  pixels.\<close>

datatype AreaElement =
    PathEl "PathCmd list"
  | RectEl real real real real
  | CircleEl real real real
  | PolygonEl "(real \<times> real) list"

definition renderArea :: "CanvasSize \<Rightarrow> AreaShape \<Rightarrow> AreaElement option" where
  "renderArea canvasSize area =
     (if a_points area = [] then None
      else if a_type area = freeform
      then Some (PathEl (buildFreeformPath (a_points area)
                           (cs_width canvasSize) (cs_height canvasSize)))
      else
        (case a_points area of
           p1 # p2 # _ \<Rightarrow>
             let x1 = p_x p1 * cs_width canvasSize;
                 y1 = p_y p1 * cs_height canvasSize;
                 x2 = p_x p2 * cs_width canvasSize;
                 y2 = p_y p2 * cs_height canvasSize
             in if a_type area = rect_shape
                then Some (RectEl (min x1 x2) (min y1 y2) \<bar>x2 - x1\<bar> \<bar>y2 - y1\<bar>)
                else if a_type area = circle_shape
                then Some (CircleEl ((x1 + x2) / 2) ((y1 + y2) / 2)
                             (hypot (x2 - x1) (y2 - y1) / 2))
                else Some (PolygonEl [(x1, y1), (x2, y1), (x2, y2)])
         | _ \<Rightarrow> None))"


subsection \<open>Component state (App.tsx 181--288)\<close>

datatype DragMode = d_none | d_move | d_start | d_end

datatype TextDragMode = td_none | td_move | td_corner

datatype Endpoint = ep_start | ep_end

text \<open>The clipboard slot: \<^verbatim>\<open>{ type: "line"; item: Line } | { type: "area"; ... } |
  { type: "text"; ... } | null\<close>; \<^verbatim>\<open>null\<close> is \<open>None\<close>.\<close>

datatype Clipboard = ClipLine Line | ClipArea AreaShape | ClipText TextBox

record LineDragStart =
  ld_mouseX :: real
  ld_mouseY :: real
  ld_x1 :: real
  ld_y1 :: real
  ld_x2 :: real
  ld_y2 :: real

record AreaDragStart =
  ad_mouseX :: real
  ad_mouseY :: real
  ad_points :: "Point list"

record TextDragStart =
  td_mouseX :: real
  td_mouseY :: real
  td_x :: real
  td_y :: real
  td_width :: real
  td_height :: real

text \<open>What a handler reads of a mouse event, and the canvas rectangle reported by
  \<^verbatim>\<open>getBoundingClientRect()\<close> at that moment.\<close>

record MouseEvent =
  clientX :: real
  clientY :: real

record DOMRect =
  r_left :: real
  r_top :: real
  r_width :: real
  r_height :: real

text \<open>
  The \<^verbatim>\<open>useState\<close> and \<^verbatim>\<open>useRef\<close> cells of the component, under their own names.
  \<open>pdfDoc\<close>, \<open>canvasRef\<close> and \<open>viewerRef\<close> record whether the cell is non-null. The hover
  ids and the pan origin (scroll offsets of the viewer) touch no annotation and are left
  out. Each handler is a function from the state it reads to the state after its
  setters have been applied, with one exception. The state updaters that
  \<^verbatim>\<open>handleMouseMove\<close> hands to React in its three drag branches (App.tsx 892--919,
  937--981, 999--1022) read the drag refs \<^verbatim>\<open>.current\<close> inside the updater, that is
  when React runs it, and a ref written in between (by \<^verbatim>\<open>endPanOrDraw\<close>, or by the
  start of another drag) is seen by it. Such an updater is kept in \<open>pendingDrags\<close>
  with the values it has captured, and runs, reading the refs of that moment, when
  React renders (\<open>flushUpdates\<close>). The other updaters read no ref and are applied at
  once.
\<close>

text \<open>An updater queued by a drag branch of \<^verbatim>\<open>handleMouseMove\<close>: the snapshot
  destructured from the drag-start ref and \<open>dxNorm\<close>, \<open>dyNorm\<close>, all computed when the
  handler was called.\<close>

datatype PendingDrag =
    PendingLineDrag LineDragStart real real
  | PendingAreaDrag AreaDragStart real real
  | PendingTextDrag TextDragStart real real

record App =
  pdfDoc :: bool
  pageNum :: int
  scale :: real
  totalPages :: "int option"
  canvasSize :: "CanvasSize option"
  canvasRef :: bool
  viewerRef :: bool
  tool :: ToolMode
  lines :: "Line list"
  lineStyle :: LineStyle
  lineWidth :: real
  arrowEnd :: bool
  isDrawingLine :: bool
  currentLineId :: "int option"
  lineColor :: string
  selectedLineId :: "int option"
  areas :: "AreaShape list"
  areaShapeType :: AreaShapeType
  areaOutlineStyle :: OutlineStyle
  areaThickness :: real
  areaFillOpacity :: real
  isDrawingArea :: bool
  currentAreaId :: "int option"
  selectedAreaId :: "int option"
  clipboard :: "Clipboard option"
  textBoxes :: "TextBox list"
  selectedTextId :: "int option"
  editingTextId :: "int option"
  textColor :: string
  textFont :: TextFont
  textSize :: real
  textBold :: bool
  textItalic :: bool
  textUnderline :: bool
  textBgColor :: string
  textBgSolid :: bool
  isPanningRef :: bool
  dragModeRef :: DragMode
  dragLineIdRef :: "int option"
  dragStartRef :: "LineDragStart option"
  areaDragModeRef :: DragMode
  areaDragIdRef :: "int option"
  areaDragStartRef :: "AreaDragStart option"
  textDragModeRef :: TextDragMode
  textDragIdRef :: "int option"
  textDragStartRef :: "TextDragStart option"
  pendingDrags :: "PendingDrag list"

text \<open>The state of the freshly mounted component: the initial values of the cells.\<close>

definition initApp :: App where
  "initApp =
     \<lparr>pdfDoc = False, pageNum = 1, scale = 1, totalPages = None, canvasSize = None,
      canvasRef = False, viewerRef = True, tool = hand,
      lines = [], lineStyle = solid, lineWidth = 2, arrowEnd = False,
      isDrawingLine = False, currentLineId = None, lineColor = ''#f97316'',
      selectedLineId = None,
      areas = [], areaShapeType = rect_shape, areaOutlineStyle = o_solid, areaThickness = 2,
      areaFillOpacity = 0.2, isDrawingArea = False, currentAreaId = None,
      selectedAreaId = None,
      clipboard = None,
      textBoxes = [], selectedTextId = None, editingTextId = None,
      textColor = ''#000000ff'', textFont = system, textSize = 14, textBold = False,
      textItalic = False, textUnderline = False, textBgColor = ''#facc15'',
      textBgSolid = False,
      isPanningRef = False,
      dragModeRef = d_none, dragLineIdRef = None, dragStartRef = None,
      areaDragModeRef = d_none, areaDragIdRef = None, areaDragStartRef = None,
      textDragModeRef = td_none, textDragIdRef = None, textDragStartRef = None,
      pendingDrags = []\<rparr>"

subsection \<open>Selection, deletion, duplication (App.tsx 295--394)\<close>

definition clearSelection :: "App \<Rightarrow> App" where
  "clearSelection s =
     s\<lparr>selectedLineId := None, selectedAreaId := None, selectedTextId := None,
       editingTextId := None\<rparr>"

definition deleteSelected :: "App \<Rightarrow> App" where
  "deleteSelected s =
     (case selectedLineId s of
        Some sel \<Rightarrow>
          s\<lparr>lines := filter (\<lambda>line. l_id line \<noteq> sel) (lines s), selectedLineId := None\<rparr>
      | None \<Rightarrow>
     (case selectedAreaId s of
        Some sel \<Rightarrow>
          s\<lparr>areas := filter (\<lambda>area. a_id area \<noteq> sel) (areas s), selectedAreaId := None\<rparr>
      | None \<Rightarrow>
     (case selectedTextId s of
        Some sel \<Rightarrow>
          s\<lparr>textBoxes := filter (\<lambda>box. t_id box \<noteq> sel) (textBoxes s),
            selectedTextId := None, editingTextId := None\<rparr>
      | None \<Rightarrow> s)))"

text \<open>The positional offset of a copy, \<^verbatim>\<open>const offset = 0.02\<close>, and the clones built
  by \<^verbatim>\<open>duplicateSelected\<close> and \<^verbatim>\<open>pasteClipboard\<close> (the same object literal in
  both).\<close>

definition offset :: real where
  "offset = 0.02"

definition cloneLine :: "int \<Rightarrow> Line \<Rightarrow> Line" where
  "cloneLine newId line =
     line\<lparr>l_id := newId,
          l_x1 := min 1 (l_x1 line + offset),
          l_y1 := min 1 (l_y1 line + offset),
          l_x2 := min 1 (l_x2 line + offset),
          l_y2 := min 1 (l_y2 line + offset)\<rparr>"

definition cloneArea :: "int \<Rightarrow> AreaShape \<Rightarrow> AreaShape" where
  "cloneArea newId area =
     area\<lparr>a_id := newId,
          a_points := map (\<lambda>p. \<lparr>p_x = min 1 (p_x p + offset), p_y = min 1 (p_y p + offset)\<rparr>)
                        (a_points area)\<rparr>"

definition cloneText :: "int \<Rightarrow> TextBox \<Rightarrow> TextBox" where
  "cloneText newId box =
     box\<lparr>t_id := newId,
         t_x := min 1 (t_x box + offset),
         t_y := min 1 (t_y box + offset)\<rparr>"

definition duplicateSelected :: "int \<Rightarrow> App \<Rightarrow> App" where
  "duplicateSelected now s =
     (case selectedLineId s of
        Some sel \<Rightarrow>
          (case find (\<lambda>l. l_id l = sel) (lines s) of
             None \<Rightarrow> s
           | Some line \<Rightarrow>
               s\<lparr>lines := lines s @ [cloneLine now line], selectedLineId := Some now\<rparr>)
      | None \<Rightarrow>
     (case selectedAreaId s of
        Some sel \<Rightarrow>
          (case find (\<lambda>a. a_id a = sel) (areas s) of
             None \<Rightarrow> s
           | Some area \<Rightarrow>
               s\<lparr>areas := areas s @ [cloneArea now area], selectedAreaId := Some now\<rparr>)
      | None \<Rightarrow>
     (case selectedTextId s of
        Some sel \<Rightarrow>
          (case find (\<lambda>b. t_id b = sel) (textBoxes s) of
             None \<Rightarrow> s
           | Some box \<Rightarrow>
               s\<lparr>textBoxes := textBoxes s @ [cloneText now box], selectedTextId := Some now\<rparr>)
      | None \<Rightarrow> s)))"

subsection \<open>Loading a document (App.tsx 397--465)\<close>

text \<open>The outcome of the asynchronous part of \<^verbatim>\<open>handleFileChange\<close>: no file chosen,
  the loading task rejected, or a document with \<open>numPages\<close> pages, together with the CSS
  size of the first page if \<^verbatim>\<open>renderPage\<close> got as far as \<^verbatim>\<open>setCanvasSize\<close>. React
  mounts the canvas once \<open>pdfDoc\<close> is set.\<close>

datatype FileLoad = NoFile | LoadError | Loaded int "CanvasSize option"

definition handleFileChange :: "FileLoad \<Rightarrow> App \<Rightarrow> App" where
  "handleFileChange r s =
     (case r of
        NoFile \<Rightarrow> s
      | LoadError \<Rightarrow> s
      | Loaded numPages rendered \<Rightarrow>
          (let s1 = s\<lparr>pdfDoc := True, totalPages := Some numPages, pageNum := 1, scale := 1,
                      lines := [], areas := [],
                      selectedLineId := None, selectedAreaId := None,
                      canvasRef := True\<rparr>
           in case rendered of
                None \<Rightarrow> s1
              | Some css \<Rightarrow> s1\<lparr>canvasSize := Some css\<rparr>))"

subsection \<open>Clipboard (App.tsx 640--721)\<close>

definition copySelection :: "App \<Rightarrow> App" where
  "copySelection s =
     (case selectedLineId s of
        Some sel \<Rightarrow>
          (case find (\<lambda>l. l_id l = sel) (lines s) of
             None \<Rightarrow> s
           | Some line \<Rightarrow> s\<lparr>clipboard := Some (ClipLine line)\<rparr>)
      | None \<Rightarrow>
     (case selectedAreaId s of
        Some sel \<Rightarrow>
          (case find (\<lambda>a. a_id a = sel) (areas s) of
             None \<Rightarrow> s
           | Some area \<Rightarrow> s\<lparr>clipboard := Some (ClipArea area)\<rparr>)
      | None \<Rightarrow>
     (case selectedTextId s of
        Some sel \<Rightarrow>
          (case find (\<lambda>b. t_id b = sel) (textBoxes s) of
             None \<Rightarrow> s
           | Some box \<Rightarrow> s\<lparr>clipboard := Some (ClipText box)\<rparr>)
      | None \<Rightarrow> s)))"

definition cutSelection :: "App \<Rightarrow> App" where
  "cutSelection s = deleteSelected (copySelection s)"

definition pasteClipboard :: "int \<Rightarrow> App \<Rightarrow> App" where
  "pasteClipboard now s =
     (case clipboard s of
        None \<Rightarrow> s
      | Some (ClipLine line) \<Rightarrow>
          s\<lparr>lines := lines s @ [cloneLine now line],
            selectedLineId := Some now, selectedAreaId := None, selectedTextId := None,
            editingTextId := None\<rparr>
      | Some (ClipArea area) \<Rightarrow>
          s\<lparr>areas := areas s @ [cloneArea now area],
            selectedAreaId := Some now, selectedLineId := None, selectedTextId := None\<rparr>
      | Some (ClipText box) \<Rightarrow>
          s\<lparr>textBoxes := textBoxes s @ [cloneText now box],
            selectedTextId := Some now, selectedLineId := None, selectedAreaId := None\<rparr>)"

subsection \<open>Pointer down on the viewer (App.tsx 724--854)\<close>

text \<open>\<open>now\<close> is the value \<^verbatim>\<open>Date.now()\<close> returns in the branch that creates an
  entity. In hand mode the handler starts a pan and touches no annotation.\<close>

definition handleMouseDown :: "int \<Rightarrow> MouseEvent \<Rightarrow> DOMRect \<Rightarrow> App \<Rightarrow> App" where
  "handleMouseDown now e rect s =
     (if tool s = hand then
        (if \<not> viewerRef s then s else s\<lparr>isPanningRef := True\<rparr>)
      else if \<not> canvasRef s \<or> canvasSize s = None \<or> \<not> pdfDoc s then clearSelection s
      else
        let x = clientX e - r_left rect;
            y = clientY e - r_top rect
        in if x < 0 \<or> y < 0 \<or> x > r_width rect \<or> y > r_height rect then clearSelection s
           else
             let nx = x / r_width rect;
                 ny = y / r_height rect
             in if tool s = line_tool \<and> dragModeRef s \<noteq> d_none then s
                else if tool s = area_tool \<and> areaDragModeRef s \<noteq> d_none then s
                else if tool s = text_tool then
                  let widthNorm = 200 / r_width rect;
                      heightNorm = 60 / r_height rect;
                      newBox = \<lparr>t_id = now, t_x = nx, t_y = ny,
                                t_width = widthNorm, t_height = heightNorm,
                                t_text = [], t_textColor = textColor s,
                                t_fontSize = textSize s, t_fontFamily = textFont s,
                                t_bold = textBold s, t_italic = textItalic s,
                                t_underline = textUnderline s,
                                t_backgroundColor = textBgColor s,
                                t_solidBackground = textBgSolid s\<rparr>
                  in s\<lparr>textBoxes := textBoxes s @ [newBox],
                       selectedTextId := Some now, selectedLineId := None,
                       selectedAreaId := None, editingTextId := None\<rparr>
                else if tool s = line_tool then
                  let newLine = \<lparr>l_id = now, l_x1 = nx, l_y1 = ny, l_x2 = nx, l_y2 = ny,
                                 l_style = lineStyle s, l_thickness = lineWidth s,
                                 l_arrowEnd = arrowEnd s, l_color = lineColor s\<rparr>
                  in s\<lparr>lines := lines s @ [newLine],
                       isDrawingLine := True, currentLineId := Some now,
                       selectedLineId := Some now, selectedAreaId := None,
                       selectedTextId := None\<rparr>
                else if tool s = area_tool then
                  let initialPoints =
                        (if areaShapeType s \<noteq> freeform
                         then [\<lparr>p_x = nx, p_y = ny\<rparr>, \<lparr>p_x = nx, p_y = ny\<rparr>]
                         else [\<lparr>p_x = nx, p_y = ny\<rparr>]);
                      newArea = \<lparr>a_id = now, a_type = areaShapeType s,
                                 a_points = initialPoints,
                                 a_outlineStyle = areaOutlineStyle s,
                                 a_thickness = areaThickness s, a_color = lineColor s,
                                 a_fillOpacity = areaFillOpacity s\<rparr>
                  in s\<lparr>areas := areas s @ [newArea],
                       isDrawingArea := True, currentAreaId := Some now,
                       selectedAreaId := Some now, selectedLineId := None,
                       selectedTextId := None\<rparr>
                else s)"

subsection \<open>Pointer move on the viewer (App.tsx 858--1064)\<close>

text \<open>The callbacks given to \<^verbatim>\<open>prev.map\<close> in the three drag branches, after the test
  on the id: every new coordinate is computed from the snapshot taken when the drag
  started. The drag mode is the one the ref holds when the callback runs.\<close>

definition dragLine :: "DragMode \<Rightarrow> LineDragStart \<Rightarrow> real \<Rightarrow> real \<Rightarrow> Line \<Rightarrow> Line" where
  "dragLine mode st dxNorm dyNorm line =
     (if mode = d_move then
        line\<lparr>l_x1 := ld_x1 st + dxNorm, l_y1 := ld_y1 st + dyNorm,
             l_x2 := ld_x2 st + dxNorm, l_y2 := ld_y2 st + dyNorm\<rparr>
      else if mode = d_start then
        line\<lparr>l_x1 := ld_x1 st + dxNorm, l_y1 := ld_y1 st + dyNorm\<rparr>
      else if mode = d_end then
        line\<lparr>l_x2 := ld_x2 st + dxNorm, l_y2 := ld_y2 st + dyNorm\<rparr>
      else line)"

definition dragArea :: "DragMode \<Rightarrow> AreaDragStart \<Rightarrow> real \<Rightarrow> real \<Rightarrow> AreaShape \<Rightarrow> AreaShape" where
  "dragArea mode st dxNorm dyNorm area =
     (if mode = d_move then
        area\<lparr>a_points := map (\<lambda>p. \<lparr>p_x = p_x p + dxNorm, p_y = p_y p + dyNorm\<rparr>)
                             (ad_points st)\<rparr>
      else
        (case ad_points st of
           p1 # p2 # _ \<Rightarrow>
             if a_type area \<noteq> freeform then
               (if mode = d_start then
                  area\<lparr>a_points := [\<lparr>p_x = p_x p1 + dxNorm, p_y = p_y p1 + dyNorm\<rparr>, p2]\<rparr>
                else if mode = d_end then
                  area\<lparr>a_points := [p1, \<lparr>p_x = p_x p2 + dxNorm, p_y = p_y p2 + dyNorm\<rparr>]\<rparr>
                else area)
             else area
         | _ \<Rightarrow> area))"

definition minSize :: real where
  "minSize = 0.03"

definition dragText :: "TextDragMode \<Rightarrow> TextDragStart \<Rightarrow> real \<Rightarrow> real \<Rightarrow> TextBox \<Rightarrow> TextBox" where
  "dragText mode st dxNorm dyNorm box =
     (if mode = td_move then
        box\<lparr>t_x := td_x st + dxNorm, t_y := td_y st + dyNorm\<rparr>
      else if mode = td_corner then
        box\<lparr>t_width := max minSize (td_width st + dxNorm),
            t_height := max minSize (td_height st + dyNorm)\<rparr>
      else box)"

text \<open>The callback of the area-drawing branch (App.tsx 1044--1061). A stored area
  always has a point; for one without, where the code would read an undefined first
  point, the model leaves the area as it is.\<close>

definition drawArea :: "real \<Rightarrow> real \<Rightarrow> AreaShape \<Rightarrow> AreaShape" where
  "drawArea nx ny area =
     (if a_type area = freeform then
        area\<lparr>a_points := a_points area @ [\<lparr>p_x = nx, p_y = ny\<rparr>]\<rparr>
      else
        (case a_points area of
           start # _ \<Rightarrow> area\<lparr>a_points := [start, \<lparr>p_x = nx, p_y = ny\<rparr>]\<rparr>
         | [] \<Rightarrow> area))"

text \<open>The handler. The tests of the drag branches read the refs when the handler is
  called (App.tsx 878--883, 924--929, 986--991), and so do the snapshot and the deltas;
  the \<^verbatim>\<open>setLines\<close>, \<^verbatim>\<open>setAreas\<close>, \<^verbatim>\<open>setTextBoxes\<close> of a drag branch only queue
  the updater.\<close>

definition handleMouseMove :: "MouseEvent \<Rightarrow> DOMRect \<Rightarrow> App \<Rightarrow> App" where
  "handleMouseMove e rect s =
     (if tool s = hand then s
      else if \<not> canvasRef s \<or> canvasSize s = None then s
      else if (tool s = line_tool \<or> tool s = select) \<and> dragModeRef s \<noteq> d_none
              \<and> dragLineIdRef s \<noteq> None \<and> dragStartRef s \<noteq> None then
        let st = the (dragStartRef s);
            dxPx = clientX e - ld_mouseX st;
            dyPx = clientY e - ld_mouseY st;
            dxNorm = dxPx / r_width rect;
            dyNorm = dyPx / r_height rect
        in s\<lparr>pendingDrags := pendingDrags s @ [PendingLineDrag st dxNorm dyNorm]\<rparr>
      else if (tool s = area_tool \<or> tool s = select) \<and> areaDragModeRef s \<noteq> d_none
              \<and> areaDragIdRef s \<noteq> None \<and> areaDragStartRef s \<noteq> None then
        let st = the (areaDragStartRef s);
            dxPx = clientX e - ad_mouseX st;
            dyPx = clientY e - ad_mouseY st;
            dxNorm = dxPx / r_width rect;
            dyNorm = dyPx / r_height rect
        in s\<lparr>pendingDrags := pendingDrags s @ [PendingAreaDrag st dxNorm dyNorm]\<rparr>
      else if (tool s = text_tool \<or> tool s = select) \<and> textDragModeRef s \<noteq> td_none
              \<and> textDragIdRef s \<noteq> None \<and> textDragStartRef s \<noteq> None then
        let st = the (textDragStartRef s);
            dxPx = clientX e - td_mouseX st;
            dyPx = clientY e - td_mouseY st;
            dxNorm = dxPx / r_width rect;
            dyNorm = dyPx / r_height rect
        in s\<lparr>pendingDrags := pendingDrags s @ [PendingTextDrag st dxNorm dyNorm]\<rparr>
      else
        let x = clientX e - r_left rect;
            y = clientY e - r_top rect;
            nx = min 1 (max 0 (x / r_width rect));
            ny = min 1 (max 0 (y / r_height rect))
        in if tool s = line_tool \<and> isDrawingLine s \<and> currentLineId s \<noteq> None then
             s\<lparr>lines := map (\<lambda>line. if Some (l_id line) = currentLineId s
                                      then line\<lparr>l_x2 := nx, l_y2 := ny\<rparr> else line)
                             (lines s)\<rparr>
           else if tool s = area_tool \<and> isDrawingArea s \<and> currentAreaId s \<noteq> None then
             s\<lparr>areas := map (\<lambda>area. if Some (a_id area) \<noteq> currentAreaId s then area
                                      else drawArea nx ny area)
                             (areas s)\<rparr>
           else s)"

text \<open>React runs a queued updater: the bodies of the updaters at App.tsx 893--918,
  938--980 and 1000--1021, with the dragged id and the drag mode read from the refs
  now. When React renders, it runs the queued updaters in the order they were
  queued.\<close>

fun runPendingDrag :: "PendingDrag \<Rightarrow> App \<Rightarrow> App" where
  "runPendingDrag (PendingLineDrag st dxNorm dyNorm) s =
     s\<lparr>lines := map (\<lambda>line. if Some (l_id line) \<noteq> dragLineIdRef s then line
                             else dragLine (dragModeRef s) st dxNorm dyNorm line)
                    (lines s)\<rparr>"
| "runPendingDrag (PendingAreaDrag st dxNorm dyNorm) s =
     s\<lparr>areas := map (\<lambda>area. if Some (a_id area) \<noteq> areaDragIdRef s then area
                             else dragArea (areaDragModeRef s) st dxNorm dyNorm area)
                    (areas s)\<rparr>"
| "runPendingDrag (PendingTextDrag st dxNorm dyNorm) s =
     s\<lparr>textBoxes := map (\<lambda>box. if Some (t_id box) \<noteq> textDragIdRef s then box
                                else dragText (textDragModeRef s) st dxNorm dyNorm box)
                        (textBoxes s)\<rparr>"

definition flushUpdates :: "App \<Rightarrow> App" where
  "flushUpdates s = (fold runPendingDrag (pendingDrags s) s)\<lparr>pendingDrags := []\<rparr>"

subsection \<open>Pointer up or leave (App.tsx 1066--1092)\<close>

definition endPanOrDraw :: "App \<Rightarrow> App" where
  "endPanOrDraw s =
     (if tool s = hand \<and> \<not> viewerRef s then s
      else
        s\<lparr>isPanningRef := (if tool s = hand then False else isPanningRef s),
          isDrawingLine := False, currentLineId := None,
          dragModeRef := d_none, dragLineIdRef := None, dragStartRef := None,
          isDrawingArea := False, currentAreaId := None,
          areaDragModeRef := d_none, areaDragIdRef := None, areaDragStartRef := None,
          textDragModeRef := td_none, textDragIdRef := None, textDragStartRef := None\<rparr>)"

subsection \<open>Pointer down on a line, an area or their handles (App.tsx 1105--1215)\<close>

definition lineDragStart :: "MouseEvent \<Rightarrow> Line \<Rightarrow> LineDragStart" where
  "lineDragStart e line =
     \<lparr>ld_mouseX = clientX e, ld_mouseY = clientY e,
      ld_x1 = l_x1 line, ld_y1 = l_y1 line, ld_x2 = l_x2 line, ld_y2 = l_y2 line\<rparr>"

definition startLineMove :: "MouseEvent \<Rightarrow> int \<Rightarrow> App \<Rightarrow> App" where
  "startLineMove e lineId s =
     (if (tool s \<noteq> line_tool \<and> tool s \<noteq> select) \<or> \<not> canvasRef s then s
      else
        (case find (\<lambda>l. l_id l = lineId) (lines s) of
           None \<Rightarrow> s
         | Some line \<Rightarrow>
             s\<lparr>selectedLineId := Some lineId, selectedAreaId := None,
               lineStyle := l_style line, lineWidth := l_thickness line,
               arrowEnd := l_arrowEnd line, lineColor := l_color line,
               dragModeRef := d_move, dragLineIdRef := Some lineId,
               dragStartRef := Some (lineDragStart e line)\<rparr>))"

definition startHandleDrag :: "MouseEvent \<Rightarrow> int \<Rightarrow> Endpoint \<Rightarrow> App \<Rightarrow> App" where
  "startHandleDrag e lineId endpoint s =
     (if (tool s \<noteq> line_tool \<and> tool s \<noteq> select) \<or> \<not> canvasRef s then s
      else
        (case find (\<lambda>l. l_id l = lineId) (lines s) of
           None \<Rightarrow> s
         | Some line \<Rightarrow>
             s\<lparr>selectedLineId := Some lineId, selectedAreaId := None,
               lineStyle := l_style line, lineWidth := l_thickness line,
               arrowEnd := l_arrowEnd line, lineColor := l_color line,
               dragModeRef := (if endpoint = ep_start then d_start else d_end),
               dragLineIdRef := Some lineId,
               dragStartRef := Some (lineDragStart e line)\<rparr>))"

definition areaDragStart :: "MouseEvent \<Rightarrow> AreaShape \<Rightarrow> AreaDragStart" where
  "areaDragStart e area =
     \<lparr>ad_mouseX = clientX e, ad_mouseY = clientY e, ad_points = a_points area\<rparr>"

definition startAreaMove :: "MouseEvent \<Rightarrow> int \<Rightarrow> App \<Rightarrow> App" where
  "startAreaMove e areaId s =
     (if (tool s \<noteq> area_tool \<and> tool s \<noteq> select) \<or> \<not> canvasRef s then s
      else
        (case find (\<lambda>a. a_id a = areaId) (areas s) of
           None \<Rightarrow> s
         | Some area \<Rightarrow>
             s\<lparr>selectedAreaId := Some areaId, selectedLineId := None,
               areaOutlineStyle := a_outlineStyle area, areaThickness := a_thickness area,
               areaFillOpacity := a_fillOpacity area, lineColor := a_color area,
               areaDragModeRef := d_move, areaDragIdRef := Some areaId,
               areaDragStartRef := Some (areaDragStart e area)\<rparr>))"

definition startAreaHandleDrag :: "MouseEvent \<Rightarrow> int \<Rightarrow> Endpoint \<Rightarrow> App \<Rightarrow> App" where
  "startAreaHandleDrag e areaId endpoint s =
     (if (tool s \<noteq> area_tool \<and> tool s \<noteq> select) \<or> \<not> canvasRef s then s
      else
        (case find (\<lambda>a. a_id a = areaId) (areas s) of
           None \<Rightarrow> s
         | Some area \<Rightarrow>
             if a_type area = freeform \<or> length (a_points area) < 2 then s
             else
               s\<lparr>selectedAreaId := Some areaId, selectedLineId := None,
                 areaOutlineStyle := a_outlineStyle area, areaThickness := a_thickness area,
                 areaFillOpacity := a_fillOpacity area, lineColor := a_color area,
                 areaDragModeRef := (if endpoint = ep_start then d_start else d_end),
                 areaDragIdRef := Some areaId,
                 areaDragStartRef := Some (areaDragStart e area)\<rparr>))"

subsection \<open>Pointer handlers of a rendered text box (App.tsx 2276--2373)\<close>

text \<open>The handlers close over the \<open>box\<close> rendered from \<open>textBoxes\<close>: pointer down on the
  body, double click, pointer down on the corner grip.\<close>

definition textDragStart :: "MouseEvent \<Rightarrow> TextBox \<Rightarrow> TextDragStart" where
  "textDragStart e box =
     \<lparr>td_mouseX = clientX e, td_mouseY = clientY e,
      td_x = t_x box, td_y = t_y box, td_width = t_width box, td_height = t_height box\<rparr>"

definition textBoxMouseDown :: "MouseEvent \<Rightarrow> TextBox \<Rightarrow> App \<Rightarrow> App" where
  "textBoxMouseDown e box s =
     (if tool s \<noteq> text_tool \<and> tool s \<noteq> select then s
      else
        s\<lparr>selectedTextId := Some (t_id box), selectedLineId := None, selectedAreaId := None,
          editingTextId := None,
          textColor := t_textColor box, textSize := t_fontSize box,
          textFont := t_fontFamily box, textBold := t_bold box, textItalic := t_italic box,
          textUnderline := t_underline box, textBgColor := t_backgroundColor box,
          textBgSolid := t_solidBackground box,
          textDragModeRef := td_move, textDragIdRef := Some (t_id box),
          textDragStartRef := Some (textDragStart e box)\<rparr>)"

definition textBoxDoubleClick :: "TextBox \<Rightarrow> App \<Rightarrow> App" where
  "textBoxDoubleClick box s =
     (if tool s \<noteq> text_tool \<and> tool s \<noteq> select then s
      else
        s\<lparr>selectedTextId := Some (t_id box), selectedLineId := None, selectedAreaId := None,
          editingTextId := Some (t_id box)\<rparr>)"

definition textCornerMouseDown :: "MouseEvent \<Rightarrow> TextBox \<Rightarrow> App \<Rightarrow> App" where
  "textCornerMouseDown e box s =
     (if tool s \<noteq> text_tool \<and> tool s \<noteq> select then s
      else
        s\<lparr>selectedTextId := Some (t_id box), selectedLineId := None, selectedAreaId := None,
          editingTextId := None,
          textDragModeRef := td_corner, textDragIdRef := Some (t_id box),
          textDragStartRef := Some (textDragStart e box)\<rparr>)"

subsection \<open>Sessions: sequences of handler calls\<close>

text \<open>One constructor per handler wired in the JSX (App.tsx 1305--1353, 1497, 1790--1793,
  1874--2047, 2125--2207, 2276--2373, 2499--2531). A text-box event names the rendered
  box by its position in \<open>textBoxes\<close>; there is no element for a position beyond the
  list. The tool and shape buttons call the state setters directly. \<open>Render\<close> is
  React rendering the component, which runs the queued updaters; it may come right
  after the pointer move that queued them or after later handler calls.\<close>

datatype Event =
    MouseDown int MouseEvent DOMRect
  | MouseMove MouseEvent DOMRect
  | MouseUp
  | LineDown MouseEvent int
  | LineHandleDown MouseEvent int Endpoint
  | AreaDown MouseEvent int
  | AreaHandleDown MouseEvent int Endpoint
  | TextDown MouseEvent nat
  | TextDoubleClick nat
  | TextCornerDown MouseEvent nat
  | Copy
  | Cut
  | Paste int
  | Duplicate int
  | Delete
  | SetTool ToolMode
  | SetAreaShapeType AreaShapeType
  | FileChange FileLoad
  | Render

definition onTextBox :: "nat \<Rightarrow> (TextBox \<Rightarrow> App \<Rightarrow> App) \<Rightarrow> App \<Rightarrow> App" where
  "onTextBox k handler s =
     (if k < length (textBoxes s) then handler (textBoxes s ! k) s else s)"

fun step :: "Event \<Rightarrow> App \<Rightarrow> App" where
  "step (MouseDown now e rect) s = handleMouseDown now e rect s"
| "step (MouseMove e rect) s = handleMouseMove e rect s"
| "step MouseUp s = endPanOrDraw s"
| "step (LineDown e lineId) s = startLineMove e lineId s"
| "step (LineHandleDown e lineId endpoint) s = startHandleDrag e lineId endpoint s"
| "step (AreaDown e areaId) s = startAreaMove e areaId s"
| "step (AreaHandleDown e areaId endpoint) s = startAreaHandleDrag e areaId endpoint s"
| "step (TextDown e k) s = onTextBox k (textBoxMouseDown e) s"
| "step (TextDoubleClick k) s = onTextBox k textBoxDoubleClick s"
| "step (TextCornerDown e k) s = onTextBox k (textCornerMouseDown e) s"
| "step Copy s = copySelection s"
| "step Cut s = cutSelection s"
| "step (Paste now) s = pasteClipboard now s"
| "step (Duplicate now) s = duplicateSelected now s"
| "step Delete s = deleteSelected s"
| "step (SetTool t) s = s\<lparr>tool := t\<rparr>"
| "step (SetAreaShapeType shape) s = s\<lparr>areaShapeType := shape\<rparr>"
| "step (FileChange r) s = handleFileChange r s"
| "step Render s = flushUpdates s"

fun run :: "Event list \<Rightarrow> App \<Rightarrow> App" where
  "run [] s = s"
| "run (ev # evs) s = run evs (step ev s)"

text \<open>The clock reading an event hands to its handler, if it has one.\<close>

fun clock :: "Event \<Rightarrow> int list" where
  "clock (MouseDown now e rect) = [now]"
| "clock (Paste now) = [now]"
| "clock (Duplicate now) = [now]"
| "clock _ = []"

text \<open>The ids of the entities a handler call appended: every creation appends to the
  end of its collection, so these are the ids beyond the old lengths.\<close>

definition created :: "App \<Rightarrow> App \<Rightarrow> int list" where
  "created s s' =
     map l_id (drop (length (lines s)) (lines s'))
     @ map a_id (drop (length (areas s)) (areas s'))
     @ map t_id (drop (length (textBoxes s)) (textBoxes s'))"

fun minted :: "Event list \<Rightarrow> App \<Rightarrow> int list" where
  "minted [] s = []"
| "minted (ev # evs) s = created s (step ev s) @ minted evs (step ev s)"


subsection \<open>Predicates on states and events\<close>






text \<open>Exactly one of the three selection ids is set, and it names an entity of its
  collection.\<close>

definition oneSelected :: "App \<Rightarrow> bool" where
  "oneSelected s \<longleftrightarrow>
     (case (selectedLineId s, selectedAreaId s, selectedTextId s) of
        (Some sel, None, None) \<Rightarrow> find (\<lambda>l. l_id l = sel) (lines s) \<noteq> None
      | (None, Some sel, None) \<Rightarrow> find (\<lambda>a. a_id a = sel) (areas s) \<noteq> None
      | (None, None, Some sel) \<Rightarrow> find (\<lambda>b. t_id b = sel) (textBoxes s) \<noteq> None
      | _ \<Rightarrow> False)"

text \<open>The number of selection ids that are set.\<close>

definition selectedCount :: "App \<Rightarrow> nat" where
  "selectedCount s =
     (if selectedLineId s = None then 0 else 1)
     + (if selectedAreaId s = None then 0 else 1)
     + (if selectedTextId s = None then 0 else 1)"

text \<open>Positions inside the unit square: the endpoints of a line, the points of an
  area, the origin of a text box.\<close>

definition unitCoord :: "real \<Rightarrow> bool" where
  "unitCoord v \<longleftrightarrow> 0 \<le> v \<and> v \<le> 1"

definition lineInUnit :: "Line \<Rightarrow> bool" where
  "lineInUnit l \<longleftrightarrow>
     unitCoord (l_x1 l) \<and> unitCoord (l_y1 l) \<and> unitCoord (l_x2 l) \<and> unitCoord (l_y2 l)"

definition areaInUnit :: "AreaShape \<Rightarrow> bool" where
  "areaInUnit a \<longleftrightarrow> list_all (\<lambda>p. unitCoord (p_x p) \<and> unitCoord (p_y p)) (a_points a)"

definition textInUnit :: "TextBox \<Rightarrow> bool" where
  "textInUnit b \<longleftrightarrow> unitCoord (t_x b) \<and> unitCoord (t_y b)"

definition positionsInUnit :: "App \<Rightarrow> bool" where
  "positionsInUnit s \<longleftrightarrow>
     list_all lineInUnit (lines s) \<and> list_all areaInUnit (areas s)
     \<and> list_all textInUnit (textBoxes s)"

subsection \<open>Notions used in the statements\<close>





text \<open>Two states that differ at most in the three collections and the queue: same
  tool, same refs, same everything else.\<close>

definition sameRefs :: "App \<Rightarrow> App \<Rightarrow> bool" where
  "sameRefs u s \<longleftrightarrow>
     u\<lparr>lines := lines s, areas := areas s, textBoxes := textBoxes s,
       pendingDrags := pendingDrags s\<rparr> = s"

subsection \<open>Concrete inputs used in the evaluations below\<close>

definition demoLine :: Line where
  "demoLine =
     \<lparr>l_id = 7, l_x1 = 0.1, l_y1 = 0.1, l_x2 = 0.2, l_y2 = 0.2, l_style = solid,
      l_thickness = 2, l_arrowEnd = False, l_color = ''#f97316''\<rparr>"

definition demoArea :: AreaShape where
  "demoArea =
     \<lparr>a_id = 7, a_type = rect_shape,
      a_points = [\<lparr>p_x = 0.2, p_y = 0.2\<rparr>, \<lparr>p_x = 0.6, p_y = 0.5\<rparr>],
      a_outlineStyle = o_solid, a_thickness = 2, a_color = ''#f97316'',
      a_fillOpacity = 0.2\<rparr>"

definition demoText :: TextBox where
  "demoText =
     \<lparr>t_id = 7, t_x = 0.5, t_y = 0.5, t_width = 0.2, t_height = 0.1, t_text = [],
      t_textColor = ''#000000ff'', t_fontSize = 14, t_fontFamily = system, t_bold = False,
      t_italic = False, t_underline = False, t_backgroundColor = ''#facc15'',
      t_solidBackground = False\<rparr>"

definition demoCanvas :: CanvasSize where
  "demoCanvas = \<lparr>cs_width = 100, cs_height = 100\<rparr>"

definition demoRect :: DOMRect where
  "demoRect = \<lparr>r_left = 0, r_top = 0, r_width = 100, r_height = 100\<rparr>"

definition mouseAt :: "real \<Rightarrow> real \<Rightarrow> MouseEvent" where
  "mouseAt x y = \<lparr>clientX = x, clientY = y\<rparr>"

text \<open>A session on a 100 by 100 canvas: open a document, draw a line from (10,10) to
  (20,20) at clock reading 1, place a text box at (50,50) at clock reading 2, switch to
  the select tool. The text box is the selected entity at the end.\<close>

definition lineThenText :: "Event list" where
  "lineThenText =
     [FileChange (Loaded 1 (Some demoCanvas)),
      SetTool line_tool, MouseDown 1 (mouseAt 10 10) demoRect,
      MouseMove (mouseAt 20 20) demoRect, MouseUp,
      SetTool text_tool, MouseDown 2 (mouseAt 50 50) demoRect, MouseUp,
      SetTool select]"

text \<open>Open a document and draw a line from (10,10) to (20,20) at clock reading 5.\<close>

definition drawLine :: "Event list" where
  "drawLine =
     [FileChange (Loaded 1 (Some demoCanvas)),
      SetTool line_tool, MouseDown 5 (mouseAt 10 10) demoRect,
      MouseMove (mouseAt 20 20) demoRect, MouseUp]"

text \<open>A session that leaves a line (id 1, from (0.1,0.1) to (0.2,0.2)), a rectangle
  area (id 3, corners (0.3,0.3) and (0.6,0.7)) and a text box (id 2, at (0.5,0.5)) on
  a 100 by 100 canvas, with the select tool active and no drag in progress.\<close>

definition lineAreaText :: "Event list" where
  "lineAreaText =
     [FileChange (Loaded 1 (Some demoCanvas)),
      SetTool line_tool, MouseDown 1 (mouseAt 10 10) demoRect,
      MouseMove (mouseAt 20 20) demoRect, MouseUp,
      SetTool text_tool, MouseDown 2 (mouseAt 50 50) demoRect, MouseUp,
      SetTool area_tool, MouseDown 3 (mouseAt 30 30) demoRect,
      MouseMove (mouseAt 60 70) demoRect, MouseUp,
      SetTool select]"

text \<open>The entities that session leaves.\<close>

definition sessionLine :: Line where
  "sessionLine =
     \<lparr>l_id = 1, l_x1 = 0.1, l_y1 = 0.1, l_x2 = 0.2, l_y2 = 0.2, l_style = solid,
      l_thickness = 2, l_arrowEnd = False, l_color = ''#f97316''\<rparr>"

definition sessionArea :: AreaShape where
  "sessionArea =
     \<lparr>a_id = 3, a_type = rect_shape,
      a_points = [\<lparr>p_x = 0.3, p_y = 0.3\<rparr>, \<lparr>p_x = 0.6, p_y = 0.7\<rparr>],
      a_outlineStyle = o_solid, a_thickness = 2, a_color = ''#f97316'',
      a_fillOpacity = 0.2\<rparr>"


text \<open>The line that \<open>drawLine\<close> leaves.\<close>

definition drawnLine :: Line where
  "drawnLine =
     \<lparr>l_id = 5, l_x1 = 0.1, l_y1 = 0.1, l_x2 = 0.2, l_y2 = 0.2, l_style = solid,
      l_thickness = 2, l_arrowEnd = False, l_color = ''#f97316''\<rparr>"

text \<open>A text box placed at (500,500) on a canvas of 1000 by 1000 px at clock reading 2,
  with the select tool active afterwards: origin (0.5,0.5), width 0.2, height 0.06,
  so that its corner grip is at (700,560).\<close>

definition bigCanvas :: CanvasSize where
  "bigCanvas = \<lparr>cs_width = 1000, cs_height = 1000\<rparr>"

definition bigRect :: DOMRect where
  "bigRect = \<lparr>r_left = 0, r_top = 0, r_width = 1000, r_height = 1000\<rparr>"


section \<open>Evaluation and frame lemmas\<close>

lemmas handler_defs =
  handleFileChange_def handleMouseDown_def handleMouseMove_def endPanOrDraw_def
  startLineMove_def startHandleDrag_def startAreaMove_def startAreaHandleDrag_def
  textBoxMouseDown_def textBoxDoubleClick_def textCornerMouseDown_def onTextBox_def
  copySelection_def cutSelection_def pasteClipboard_def duplicateSelected_def
  deleteSelected_def clearSelection_def
  lineDragStart_def areaDragStart_def textDragStart_def flushUpdates_def

lemmas demo_defs =
  initApp_def demoCanvas_def demoRect_def mouseAt_def demoLine_def demoArea_def
  demoText_def bigCanvas_def bigRect_def

lemma pasteClipboard_line:
  "clipboard s = Some (ClipLine line) \<Longrightarrow>
   pasteClipboard now s =
     s\<lparr>lines := lines s @ [cloneLine now line],
       selectedLineId := Some now, selectedAreaId := None, selectedTextId := None,
       editingTextId := None\<rparr>"
  by (simp add: pasteClipboard_def)

lemma pasteClipboard_area:
  "clipboard s = Some (ClipArea area) \<Longrightarrow>
   pasteClipboard now s =
     s\<lparr>areas := areas s @ [cloneArea now area],
       selectedAreaId := Some now, selectedLineId := None, selectedTextId := None\<rparr>"
  by (simp add: pasteClipboard_def)

lemma pasteClipboard_text:
  "clipboard s = Some (ClipText box) \<Longrightarrow>
   pasteClipboard now s =
     s\<lparr>textBoxes := textBoxes s @ [cloneText now box],
       selectedTextId := Some now, selectedLineId := None, selectedAreaId := None\<rparr>"
  by (simp add: pasteClipboard_def)

lemma pasteClipboard_empty: "clipboard s = None \<Longrightarrow> pasteClipboard now s = s"
  by (simp add: pasteClipboard_def)

lemma clipboard_pasteClipboard: "clipboard (pasteClipboard now s) = clipboard s"
  by (simp add: pasteClipboard_def split: option.splits Clipboard.splits)

section \<open>Geometry kernel\<close>

lemma wavyLoop_eq:
  "wavyLoop x1 y1 stepX stepY nx ny amplitude segments i d =
     d @ map (wavyStep x1 y1 stepX stepY nx ny amplitude) [i..segments]"
proof (induction x1 y1 stepX stepY nx ny amplitude segments i d rule: wavyLoop.induct)
  case (1 x1 y1 stepX stepY nx ny amplitude segments i d)
  show ?case
  proof (cases "i \<le> segments")
    case True
    then have "[i..segments] = i # [i + 1..segments]"
      by (simp add: upto_rec1)
    with True "1.IH" show ?thesis
      by (subst wavyLoop.simps) simp
  next
    case False
    then show ?thesis
      by (subst wavyLoop.simps) simp
  qed
qed

lemma hypot_zero_right: "hypot a 0 = \<bar>a\<bar>"
  by (simp add: hypot_def)

lemma hypot_swap: "hypot (a - b) (c - d) = hypot (b - a) (d - c)"
proof -
  have "(a - b) * (a - b) = (b - a) * (b - a)" "(c - d) * (c - d) = (d - c) * (d - c)"
    by (simp_all add: algebra_simps)
  then show ?thesis by (simp add: hypot_def)
qed

lemma hypot_345: "0 \<le> c \<Longrightarrow> hypot (4 * c) (3 * c) = 5 * c"
  unfolding hypot_def by (rule real_sqrt_unique) (simp_all add: power2_eq_square)

lemma makeWavyPath_general:
  assumes w: "wavelength \<noteq> 0"
  shows "\<exists>cmds.
      makeWavyPath x1 y1 x2 y2 amplitude wavelength = Some (MoveTo x1 y1 # cmds) \<and>
      (let len = (if hypot (x2 - x1) (y2 - y1) = 0 then 1 else hypot (x2 - x1) (y2 - y1));
           n = max 2 (js_round (len / wavelength))
       in int (length cmds) = n \<and>
          (\<forall>k < length cmds.
             let i = int k + 1;
                 px = x1 + (x2 - x1) / of_int n * of_int i;
                 py = y1 + (y2 - y1) / of_int n * of_int i;
                 off = (if even i then - amplitude else amplitude)
             in cmds ! k = QuadTo (px + (- (y2 - y1) / len) * off)
                                  (py + ((x2 - x1) / len) * off) px py))"
proof -
  define len where
    "len = (if hypot (x2 - x1) (y2 - y1) = 0 then 1 else hypot (x2 - x1) (y2 - y1))"
  define n where "n = max 2 (js_round (len / wavelength))"
  define stp where
    "stp = wavyStep x1 y1 ((x2 - x1) / of_int n) ((y2 - y1) / of_int n)
             (- (y2 - y1) / len) ((x2 - x1) / len) amplitude"
  have n2: "2 \<le> n" by (simp add: n_def)
  have mk: "makeWavyPath x1 y1 x2 y2 amplitude wavelength
              = Some (MoveTo x1 y1 # map stp [1..n])"
    by (simp only: makeWavyPath_def Let_def wavyLoop_eq len_def n_def stp_def w if_False
          append_Cons append_Nil)
  have ln: "int (length (map stp [1..n])) = n"
    using n2 by simp
  have nth: "map stp [1..n] ! k = stp (int k + 1)" if "k < length (map stp [1..n])" for k
  proof -
    from that have "1 + int k \<le> n" using n2 by simp
    then have "[1..n] ! k = 1 + int k" by (rule nth_upto)
    with that show ?thesis by (simp add: add.commute)
  qed
  have stp_eq: "stp i = QuadTo
       (x1 + (x2 - x1) / of_int n * of_int i
          + (- (y2 - y1) / len) * (if even i then - amplitude else amplitude))
       (y1 + (y2 - y1) / of_int n * of_int i
          + ((x2 - x1) / len) * (if even i then - amplitude else amplitude))
       (x1 + (x2 - x1) / of_int n * of_int i) (y1 + (y2 - y1) / of_int n * of_int i)" for i
    by (simp add: stp_def wavyStep_def Let_def even_iff_mod_2_eq_zero)
  show ?thesis
    apply (rule exI [of _ "map stp [1..n]"])
    unfolding Let_def len_def [symmetric] n_def [symmetric]
    apply (intro conjI allI impI)
      apply (rule mk)
     apply (rule ln)
    apply (simp only: nth stp_eq)
    done
qed

lemma makeWavyPath_zero_length:
  assumes w: "wavelength \<noteq> 0"
  shows "\<exists>cmds. makeWavyPath x1 y1 x1 y1 amplitude wavelength = Some (MoveTo x1 y1 # cmds)
           \<and> int (length cmds) = max 2 (js_round (1 / wavelength))"
proof -
  from makeWavyPath_general [OF w, of x1 y1 x1 y1 amplitude]
  obtain cmds where
    "makeWavyPath x1 y1 x1 y1 amplitude wavelength = Some (MoveTo x1 y1 # cmds)"
    "int (length cmds) = max 2 (js_round (1 / wavelength))"
    by (auto simp: Let_def hypot_def)
  then show ?thesis by blast
qed

lemma makeWavyPath_120:
  "makeWavyPath 0 0 120 0 amplitude 12 =
     Some [MoveTo 0 0,
           QuadTo 12 amplitude 12 0, QuadTo 24 (- amplitude) 24 0,
           QuadTo 36 amplitude 36 0, QuadTo 48 (- amplitude) 48 0,
           QuadTo 60 amplitude 60 0, QuadTo 72 (- amplitude) 72 0,
           QuadTo 84 amplitude 84 0, QuadTo 96 (- amplitude) 96 0,
           QuadTo 108 amplitude 108 0, QuadTo 120 (- amplitude) 120 0]"
proof -
  have r: "js_round 10 = 10" by (simp add: js_round_def)
  have u: "[1..10::int] = [1, 2, 3, 4, 5, 6, 7, 8, 9, 10]"
    by (simp add: upto_rec1)
  show ?thesis
    by (simp add: makeWavyPath_def hypot_zero_right Let_def wavyLoop_eq r u wavyStep_def)
qed

text \<open>
  C8. For a wavelength other than zero, \<open>makeWavyPath\<close> returns the move to the first
  endpoint followed by \<open>n = max(2, round(len / wavelength))\<close> quadratic segments, where
  \<open>len\<close> is the distance of the endpoints, or 1 when that distance is 0. Segment \<open>i\<close>
  (counted from 1) ends at the first endpoint plus \<open>i\<close> times one \<open>n\<close>-th of the way, and
  its control point is that end point moved along the normal \<open>(-dy, dx) / len\<close> by
  \<open>+amplitude\<close> for odd \<open>i\<close> and \<open>-amplitude\<close> for even \<open>i\<close>. A zero-length segment gets
  \<open>max(2, round(1 / wavelength))\<close> segments. From (0,0) to (120,0) with wavelength 12 the
  path has exactly 10 segments, the first with offset \<open>+amplitude\<close>.
\<close>

theorem makeWavyPath_steps:
  "(wavelength \<noteq> 0 \<longrightarrow>
      (\<exists>cmds.
         makeWavyPath x1 y1 x2 y2 amplitude wavelength = Some (MoveTo x1 y1 # cmds) \<and>
         (let len = (if hypot (x2 - x1) (y2 - y1) = 0 then 1 else hypot (x2 - x1) (y2 - y1));
              n = max 2 (js_round (len / wavelength))
          in int (length cmds) = n \<and>
             (\<forall>k < length cmds.
                let i = int k + 1;
                    px = x1 + (x2 - x1) / of_int n * of_int i;
                    py = y1 + (y2 - y1) / of_int n * of_int i;
                    off = (if even i then - amplitude else amplitude)
                in cmds ! k = QuadTo (px + (- (y2 - y1) / len) * off)
                                     (py + ((x2 - x1) / len) * off) px py))))
   \<and> (wavelength \<noteq> 0 \<longrightarrow>
        (\<exists>cmds. makeWavyPath x1 y1 x1 y1 amplitude wavelength = Some (MoveTo x1 y1 # cmds)
           \<and> int (length cmds) = max 2 (js_round (1 / wavelength))))
   \<and> makeWavyPath 0 0 120 0 amplitude 12 =
       Some [MoveTo 0 0,
             QuadTo 12 amplitude 12 0, QuadTo 24 (- amplitude) 24 0,
             QuadTo 36 amplitude 36 0, QuadTo 48 (- amplitude) 48 0,
             QuadTo 60 amplitude 60 0, QuadTo 72 (- amplitude) 72 0,
             QuadTo 84 amplitude 84 0, QuadTo 96 (- amplitude) 96 0,
             QuadTo 108 amplitude 108 0, QuadTo 120 (- amplitude) 120 0]"
  using makeWavyPath_general [of wavelength x1 y1 x2 y2 amplitude]
    makeWavyPath_zero_length [of wavelength x1 y1 amplitude]
    makeWavyPath_120 [of amplitude]
  by blast

theorem makeWavyPath_steps_witness:
  "(14::real) \<noteq> 0 \<and>
   (\<exists>cmds. makeWavyPath 0 0 28 0 4 14 = Some (MoveTo 0 0 # cmds) \<and> length cmds = 2
      \<and> cmds ! 0 = QuadTo 14 4 14 0 \<and> cmds ! 1 = QuadTo 28 (- 4) 28 0)"
proof -
  have r: "js_round 2 = 2" by (simp add: js_round_def)
  from makeWavyPath_steps [of 14 0 0 28 0 4]
  obtain cmds where mk: "makeWavyPath 0 0 28 0 4 14 = Some (MoveTo 0 0 # cmds)"
    and rest: "(let len = (if hypot (28 - 0) (0 - 0) = 0 then 1 else hypot (28 - 0) (0 - 0));
              n = max 2 (js_round (len / 14))
          in int (length cmds) = n \<and>
             (\<forall>k < length cmds.
                let i = int k + 1;
                    px = 0 + (28 - 0) / of_int n * of_int i;
                    py = 0 + (0 - 0) / of_int n * of_int i;
                    off = (if even i then - 4 else 4)
                in cmds ! k = QuadTo (px + (- (0 - 0) / len) * off)
                                     (py + ((28 - 0) / len) * off) px py))"
    by auto
  from rest have len: "length cmds = 2"
    by (simp add: Let_def hypot_zero_right r)
  from rest len have "\<forall>k < 2. cmds ! k = QuadTo (14 * (real k + 1))
                        (if even (int k + 1) then - 4 else 4) (14 * (real k + 1)) 0"
    by (simp add: Let_def hypot_zero_right r)
  then have "cmds ! 0 = QuadTo 14 4 14 0" "cmds ! 1 = QuadTo 28 (- 4) 28 0"
    by (auto dest: spec [of _ 0] spec [of _ 1])
  with mk len show ?thesis by auto
qed

lemma renderArea_rect:
  "renderArea cs (area\<lparr>a_type := rect_shape, a_points := [p, q]\<rparr>) =
     Some (RectEl (min (p_x p * cs_width cs) (p_x q * cs_width cs))
                  (min (p_y p * cs_height cs) (p_y q * cs_height cs))
                  \<bar>p_x q * cs_width cs - p_x p * cs_width cs\<bar>
                  \<bar>p_y q * cs_height cs - p_y p * cs_height cs\<bar>)"
  by (simp add: renderArea_def Let_def)

lemma renderArea_circle:
  "renderArea cs (area\<lparr>a_type := circle_shape, a_points := [p, q]\<rparr>) =
     Some (CircleEl ((p_x p * cs_width cs + p_x q * cs_width cs) / 2)
                    ((p_y p * cs_height cs + p_y q * cs_height cs) / 2)
                    (hypot (p_x q * cs_width cs - p_x p * cs_width cs)
                           (p_y q * cs_height cs - p_y p * cs_height cs) / 2))"
  by (simp add: renderArea_def Let_def)

lemma renderArea_rect_swap:
  "renderArea cs (area\<lparr>a_type := rect_shape, a_points := [q, p]\<rparr>) =
   renderArea cs (area\<lparr>a_type := rect_shape, a_points := [p, q]\<rparr>)"
  unfolding renderArea_rect by (simp add: min.commute abs_minus_commute)

lemma renderArea_circle_swap:
  "renderArea cs (area\<lparr>a_type := circle_shape, a_points := [q, p]\<rparr>) =
   renderArea cs (area\<lparr>a_type := circle_shape, a_points := [p, q]\<rparr>)"
  unfolding renderArea_circle
  by (simp add: add.commute hypot_swap [of "p_x p * cs_width cs"])

lemma renderArea_rect_example:
  assumes "0 \<le> W" "0 \<le> H"
  shows "renderArea \<lparr>cs_width = W, cs_height = H\<rparr>
     (area\<lparr>a_type := rect_shape,
           a_points := [\<lparr>p_x = 0.2, p_y = 0.2\<rparr>, \<lparr>p_x = 0.6, p_y = 0.5\<rparr>]\<rparr>) =
     Some (RectEl (0.2 * W) (0.2 * H) (0.4 * W) (0.3 * H))"
proof -
  have "min (0.2 * W) (0.6 * W) = 0.2 * W" "min (0.2 * H) (0.5 * H) = 0.2 * H"
    using assms by (simp_all add: min_def)
  moreover have "\<bar>0.6 * W - 0.2 * W\<bar> = 0.4 * W" "\<bar>0.5 * H - 0.2 * H\<bar> = 0.3 * H"
    using assms by simp_all
  ultimately show ?thesis
    unfolding renderArea_rect by simp
qed

lemma renderArea_circle_example:
  "renderArea \<lparr>cs_width = W, cs_height = H\<rparr>
     (area\<lparr>a_type := circle_shape,
           a_points := [\<lparr>p_x = 0.2, p_y = 0.2\<rparr>, \<lparr>p_x = 0.6, p_y = 0.5\<rparr>]\<rparr>) =
     Some (CircleEl (0.4 * W) (0.35 * H) (hypot (0.4 * W) (0.3 * H) / 2))"
proof -
  have "0.6 * W - 0.2 * W = 0.4 * W" "0.5 * H - 0.2 * H = 0.3 * H"
    by simp_all
  then show ?thesis
    unfolding renderArea_circle by simp
qed

lemma hypot_square_canvas: "0 \<le> c \<Longrightarrow> hypot (0.4 * c) (0.3 * c) / 2 = 0.25 * c"
proof -
  assume c: "0 \<le> c"
  have "0.4 * c = 4 * (c / 10)" "0.3 * c = 3 * (c / 10)"
    by simp_all
  then have "hypot (0.4 * c) (0.3 * c) = 5 * (c / 10)"
    using c by (simp only: hypot_345)
  then show ?thesis by simp
qed

lemma hypot_40_60: "50 < hypot 40 60" "hypot 40 60 < 100"
proof -
  have h: "hypot 40 60 = sqrt 5200"
    by (simp add: hypot_def)
  show "50 < hypot 40 60"
    unfolding h by (rule real_less_rsqrt) simp
  show "hypot 40 60 < 100"
    unfolding h by (rule real_less_lsqrt) simp_all
qed

text \<open>
  C9, as stated, fails for the circle on a canvas that is not square: the radius is
  half the distance of the two points in pixels, so from (0.2,0.2) and (0.6,0.5) on a
  canvas 100 px wide and 200 px high the circle has centre (40, 70) and radius
  \<open>hypot 40 60 / 2\<close>, which lies strictly between 25 and 50: it is 0.25 neither of
  the width nor of the height.
\<close>

theorem renderArea_circle_radius_in_pixels:
  "renderArea \<lparr>cs_width = 100, cs_height = 200\<rparr> (demoArea\<lparr>a_type := circle_shape\<rparr>)
     = Some (CircleEl 40 70 (hypot 40 60 / 2))
   \<and> 0.25 * 100 < hypot 40 60 / 2
   \<and> hypot 40 60 / 2 < 0.25 * 200"
proof -
  have a: "demoArea\<lparr>a_type := circle_shape,
             a_points := [\<lparr>p_x = 0.2, p_y = 0.2\<rparr>, \<lparr>p_x = 0.6, p_y = 0.5\<rparr>]\<rparr>
           = demoArea\<lparr>a_type := circle_shape\<rparr>"
    by (simp add: demoArea_def)
  from renderArea_circle_example [where W = 100 and H = 200 and area = demoArea]
  have "renderArea \<lparr>cs_width = 100, cs_height = 200\<rparr> (demoArea\<lparr>a_type := circle_shape\<rparr>)
     = Some (CircleEl 40 70 (hypot 40 60 / 2))"
    unfolding a by simp
  with hypot_40_60 show ?thesis by simp
qed

text \<open>
  C9, amended. For a rectangle area with the two points \<open>p\<close>, \<open>q\<close> the drawn box is
  (min x, min y, |dx|, |dy|) of the two points in pixels, that is of the normalized
  points scaled by the canvas width and height; for a circle area the centre is the
  midpoint and the radius half the Euclidean distance of the two points in pixels;
  both are the same when the two points are swapped. From (0.2,0.2) and (0.6,0.5) on a
  W by H canvas the rectangle is x = 0.2 W, y = 0.2 H, width 0.4 W, height 0.3 H, and
  the circle has centre (0.4 W, 0.35 H) and radius \<open>hypot (0.4 W) (0.3 H) / 2\<close>, which
  is 0.25 c when W = H = c.
\<close>

theorem renderArea_rect_circle:
  "renderArea cs (area\<lparr>a_type := rect_shape, a_points := [p, q]\<rparr>) =
     Some (RectEl (min (p_x p * cs_width cs) (p_x q * cs_width cs))
                  (min (p_y p * cs_height cs) (p_y q * cs_height cs))
                  \<bar>p_x q * cs_width cs - p_x p * cs_width cs\<bar>
                  \<bar>p_y q * cs_height cs - p_y p * cs_height cs\<bar>)
   \<and> renderArea cs (area\<lparr>a_type := rect_shape, a_points := [q, p]\<rparr>) =
      renderArea cs (area\<lparr>a_type := rect_shape, a_points := [p, q]\<rparr>)
   \<and> renderArea cs (area\<lparr>a_type := circle_shape, a_points := [p, q]\<rparr>) =
     Some (CircleEl ((p_x p * cs_width cs + p_x q * cs_width cs) / 2)
                    ((p_y p * cs_height cs + p_y q * cs_height cs) / 2)
                    (hypot (p_x q * cs_width cs - p_x p * cs_width cs)
                           (p_y q * cs_height cs - p_y p * cs_height cs) / 2))
   \<and> renderArea cs (area\<lparr>a_type := circle_shape, a_points := [q, p]\<rparr>) =
      renderArea cs (area\<lparr>a_type := circle_shape, a_points := [p, q]\<rparr>)
   \<and> (0 \<le> W \<and> 0 \<le> H \<longrightarrow>
        renderArea \<lparr>cs_width = W, cs_height = H\<rparr>
          (area\<lparr>a_type := rect_shape,
                a_points := [\<lparr>p_x = 0.2, p_y = 0.2\<rparr>, \<lparr>p_x = 0.6, p_y = 0.5\<rparr>]\<rparr>) =
        Some (RectEl (0.2 * W) (0.2 * H) (0.4 * W) (0.3 * H)))
   \<and> renderArea \<lparr>cs_width = W, cs_height = H\<rparr>
        (area\<lparr>a_type := circle_shape,
              a_points := [\<lparr>p_x = 0.2, p_y = 0.2\<rparr>, \<lparr>p_x = 0.6, p_y = 0.5\<rparr>]\<rparr>) =
      Some (CircleEl (0.4 * W) (0.35 * H) (hypot (0.4 * W) (0.3 * H) / 2))
   \<and> (0 \<le> c \<longrightarrow> hypot (0.4 * c) (0.3 * c) / 2 = 0.25 * c)"
proof (intro conjI impI)
  assume "0 \<le> W \<and> 0 \<le> H"
  then show "renderArea \<lparr>cs_width = W, cs_height = H\<rparr>
          (area\<lparr>a_type := rect_shape,
                a_points := [\<lparr>p_x = 0.2, p_y = 0.2\<rparr>, \<lparr>p_x = 0.6, p_y = 0.5\<rparr>]\<rparr>) =
        Some (RectEl (0.2 * W) (0.2 * H) (0.4 * W) (0.3 * H))"
    by (simp only: renderArea_rect_example)
next
  assume "0 \<le> c"
  then show "hypot (0.4 * c) (0.3 * c) / 2 = 0.25 * c"
    by (rule hypot_square_canvas)
qed (rule renderArea_rect renderArea_rect_swap renderArea_circle renderArea_circle_swap
       renderArea_circle_example)+

theorem renderArea_rect_circle_witness:
  "(0::real) \<le> 100 \<and> (0::real) \<le> 200
   \<and> renderArea \<lparr>cs_width = 100, cs_height = 200\<rparr> demoArea = Some (RectEl 20 40 40 60)
   \<and> renderArea \<lparr>cs_width = 100, cs_height = 200\<rparr>
        (demoArea\<lparr>a_points := [\<lparr>p_x = 0.6, p_y = 0.5\<rparr>, \<lparr>p_x = 0.2, p_y = 0.2\<rparr>]\<rparr>)
      = Some (RectEl 20 40 40 60)
   \<and> renderArea \<lparr>cs_width = 100, cs_height = 200\<rparr> (demoArea\<lparr>a_type := circle_shape\<rparr>)
      = Some (CircleEl 40 70 (hypot 40 60 / 2))
   \<and> renderArea \<lparr>cs_width = 100, cs_height = 200\<rparr>
        (demoArea\<lparr>a_type := circle_shape,
                  a_points := [\<lparr>p_x = 0.6, p_y = 0.5\<rparr>, \<lparr>p_x = 0.2, p_y = 0.2\<rparr>]\<rparr>)
      = Some (CircleEl 40 70 (hypot 40 60 / 2))
   \<and> hypot (0.4 * 100) (0.3 * 100) / 2 = 25"
proof -
  have a: "demoArea\<lparr>a_type := rect_shape,
             a_points := [\<lparr>p_x = 0.2, p_y = 0.2\<rparr>, \<lparr>p_x = 0.6, p_y = 0.5\<rparr>]\<rparr> = demoArea"
    by (simp add: demoArea_def)
  have b: "demoArea\<lparr>a_type := circle_shape,
             a_points := [\<lparr>p_x = 0.2, p_y = 0.2\<rparr>, \<lparr>p_x = 0.6, p_y = 0.5\<rparr>]\<rparr>
           = demoArea\<lparr>a_type := circle_shape\<rparr>"
    by (simp add: demoArea_def)
  have c: "demoArea\<lparr>a_type := rect_shape,
             a_points := [\<lparr>p_x = 0.6, p_y = 0.5\<rparr>, \<lparr>p_x = 0.2, p_y = 0.2\<rparr>]\<rparr>
           = demoArea\<lparr>a_points := [\<lparr>p_x = 0.6, p_y = 0.5\<rparr>, \<lparr>p_x = 0.2, p_y = 0.2\<rparr>]\<rparr>"
    by (simp add: demoArea_def)
  have le: "(0::real) \<le> 100 \<and> (0::real) \<le> 200" by simp
  note t = renderArea_rect_circle [where cs = "\<lparr>cs_width = 100, cs_height = 200\<rparr>"
      and area = demoArea and p = "\<lparr>p_x = 0.2, p_y = 0.2\<rparr>"
      and q = "\<lparr>p_x = 0.6, p_y = 0.5\<rparr>" and W = 100 and H = 200 and c = 100]
  from t le have r: "renderArea \<lparr>cs_width = 100, cs_height = 200\<rparr> demoArea
      = Some (RectEl (0.2 * 100) (0.2 * 200) (0.4 * 100) (0.3 * 200))"
    unfolding a by blast
  from t have rs: "renderArea \<lparr>cs_width = 100, cs_height = 200\<rparr>
        (demoArea\<lparr>a_points := [\<lparr>p_x = 0.6, p_y = 0.5\<rparr>, \<lparr>p_x = 0.2, p_y = 0.2\<rparr>]\<rparr>)
      = renderArea \<lparr>cs_width = 100, cs_height = 200\<rparr> demoArea"
    unfolding a c by blast
  from t have k: "renderArea \<lparr>cs_width = 100, cs_height = 200\<rparr>
        (demoArea\<lparr>a_type := circle_shape\<rparr>)
      = Some (CircleEl (0.4 * 100) (0.35 * 200) (hypot (0.4 * 100) (0.3 * 200) / 2))"
    unfolding b by blast
  from t have ks: "renderArea \<lparr>cs_width = 100, cs_height = 200\<rparr>
        (demoArea\<lparr>a_type := circle_shape,
                  a_points := [\<lparr>p_x = 0.6, p_y = 0.5\<rparr>, \<lparr>p_x = 0.2, p_y = 0.2\<rparr>]\<rparr>)
      = renderArea \<lparr>cs_width = 100, cs_height = 200\<rparr> (demoArea\<lparr>a_type := circle_shape\<rparr>)"
    unfolding b by blast
  from t have sq: "hypot (0.4 * 100) (0.3 * 100) / 2 = 0.25 * 100"
    by simp
  show ?thesis
    unfolding rs ks unfolding r k using sq by simp
qed

section \<open>Selection and document load\<close>

text \<open>
  C1. Evaluation of \<open>startLineMove\<close> where the claim fails: in the session
  \<open>lineThenText\<close> the text box 2 is selected; pointer down on line 1 then selects the
  line and leaves the text box selected, so two ids are selected at once. The handlers
  of a text box, and the creation and paste of a line, do set the other two selection
  ids to null.
\<close>

theorem startLineMove_keeps_text_selected:
  "selectedLineId (run lineThenText initApp) = None
   \<and> selectedTextId (run lineThenText initApp) = Some 2
   \<and> selectedLineId (run (lineThenText @ [LineDown (mouseAt 15 15) 1]) initApp) = Some 1
   \<and> selectedAreaId (run (lineThenText @ [LineDown (mouseAt 15 15) 1]) initApp) = None
   \<and> selectedTextId (run (lineThenText @ [LineDown (mouseAt 15 15) 1]) initApp) = Some 2
   \<and> selectedCount (run (lineThenText @ [LineDown (mouseAt 15 15) 1]) initApp) = 2"
  by (simp add: lineThenText_def handler_defs demo_defs Let_def selectedCount_def)

text \<open>
  C2. Evaluation of \<open>handleFileChange\<close> where the claim fails: after the session
  \<open>lineThenText\<close>, loading another document empties the lines and the areas and clears
  their selection ids, but the text box 2 is still in \<open>textBoxes\<close> and still selected.
\<close>

theorem handleFileChange_keeps_text_boxes:
  "lines (run (lineThenText @ [FileChange (Loaded 3 (Some demoCanvas))]) initApp) = []
   \<and> areas (run (lineThenText @ [FileChange (Loaded 3 (Some demoCanvas))]) initApp) = []
   \<and> selectedLineId (run (lineThenText @ [FileChange (Loaded 3 (Some demoCanvas))]) initApp)
       = None
   \<and> selectedAreaId (run (lineThenText @ [FileChange (Loaded 3 (Some demoCanvas))]) initApp)
       = None
   \<and> map t_id (textBoxes (run (lineThenText @ [FileChange (Loaded 3 (Some demoCanvas))])
                   initApp)) = [2]
   \<and> selectedTextId (run (lineThenText @ [FileChange (Loaded 3 (Some demoCanvas))]) initApp)
       = Some 2"
  by (simp add: lineThenText_def handler_defs demo_defs Let_def)

section \<open>Paste\<close>

text \<open>
  C3, as stated, fails where the clock reading at paste time equals the id of the copied
  entity: the line drawn at reading 5 and pasted at reading 5 gives a second line with
  the id 5.
\<close>

theorem pasteClipboard_same_id:
  "clipboard (run (drawLine @ [Copy]) initApp) = Some (ClipLine drawnLine)
   \<and> l_id drawnLine = 5
   \<and> l_id (last (lines (run (drawLine @ [Copy, Paste 5]) initApp))) = 5
   \<and> map l_id (lines (run (drawLine @ [Copy, Paste 5]) initApp)) = [5, 5]
   \<and> selectedLineId (run (drawLine @ [Copy, Paste 5]) initApp) = Some 5"
  by (simp add: drawLine_def handler_defs demo_defs Let_def cloneLine_def drawnLine_def)

text \<open>
  C3, amended. For every non-empty clipboard, paste appends to the matching collection a
  clone of the clipboard entity whose id is the clock reading at paste time (it differs
  from the copied entity's id exactly when that reading does), with \<open>min(1, v + 0.02)\<close>
  in place of every positional field \<open>v\<close> (both endpoints of a line, every point of an
  area, the origin of a text box), and selects the clone alone. A clipboard line from
  (0.1,0.1) to (0.2,0.2) gives a line from (0.12,0.12) to (0.22,0.22).
\<close>

theorem pasteClipboard_clone:
  "(\<forall>line. clipboard s = Some (ClipLine line) \<longrightarrow>
      pasteClipboard now s =
        s\<lparr>lines := lines s @
              [line\<lparr>l_id := now,
                    l_x1 := min 1 (l_x1 line + 0.02), l_y1 := min 1 (l_y1 line + 0.02),
                    l_x2 := min 1 (l_x2 line + 0.02), l_y2 := min 1 (l_y2 line + 0.02)\<rparr>],
          selectedLineId := Some now, selectedAreaId := None, selectedTextId := None,
          editingTextId := None\<rparr>)
   \<and> (\<forall>area. clipboard s = Some (ClipArea area) \<longrightarrow>
      pasteClipboard now s =
        s\<lparr>areas := areas s @
              [area\<lparr>a_id := now,
                    a_points := map (\<lambda>p. \<lparr>p_x = min 1 (p_x p + 0.02),
                                           p_y = min 1 (p_y p + 0.02)\<rparr>) (a_points area)\<rparr>],
          selectedAreaId := Some now, selectedLineId := None, selectedTextId := None\<rparr>)
   \<and> (\<forall>box. clipboard s = Some (ClipText box) \<longrightarrow>
      pasteClipboard now s =
        s\<lparr>textBoxes := textBoxes s @
              [box\<lparr>t_id := now,
                   t_x := min 1 (t_x box + 0.02), t_y := min 1 (t_y box + 0.02)\<rparr>],
          selectedTextId := Some now, selectedLineId := None, selectedAreaId := None\<rparr>)
   \<and> (\<forall>line. clipboard s = Some (ClipLine line)
          \<and> l_x1 line = 0.1 \<and> l_y1 line = 0.1 \<and> l_x2 line = 0.2 \<and> l_y2 line = 0.2 \<longrightarrow>
        (let new = last (lines (pasteClipboard now s))
         in l_x1 new = 0.12 \<and> l_y1 new = 0.12 \<and> l_x2 new = 0.22 \<and> l_y2 new = 0.22
            \<and> l_id new = now \<and> (l_id new \<noteq> l_id line) = (now \<noteq> l_id line)
            \<and> selectedLineId (pasteClipboard now s) = Some now))"
proof (intro conjI allI impI)
  fix line assume "clipboard s = Some (ClipLine line)"
  then show "pasteClipboard now s =
        s\<lparr>lines := lines s @
              [line\<lparr>l_id := now,
                    l_x1 := min 1 (l_x1 line + 0.02), l_y1 := min 1 (l_y1 line + 0.02),
                    l_x2 := min 1 (l_x2 line + 0.02), l_y2 := min 1 (l_y2 line + 0.02)\<rparr>],
          selectedLineId := Some now, selectedAreaId := None, selectedTextId := None,
          editingTextId := None\<rparr>"
    by (simp add: pasteClipboard_line cloneLine_def offset_def)
next
  fix area assume "clipboard s = Some (ClipArea area)"
  then show "pasteClipboard now s =
        s\<lparr>areas := areas s @
              [area\<lparr>a_id := now,
                    a_points := map (\<lambda>p. \<lparr>p_x = min 1 (p_x p + 0.02),
                                           p_y = min 1 (p_y p + 0.02)\<rparr>) (a_points area)\<rparr>],
          selectedAreaId := Some now, selectedLineId := None, selectedTextId := None\<rparr>"
    by (simp add: pasteClipboard_area cloneArea_def offset_def)
next
  fix box assume "clipboard s = Some (ClipText box)"
  then show "pasteClipboard now s =
        s\<lparr>textBoxes := textBoxes s @
              [box\<lparr>t_id := now,
                   t_x := min 1 (t_x box + 0.02), t_y := min 1 (t_y box + 0.02)\<rparr>],
          selectedTextId := Some now, selectedLineId := None, selectedAreaId := None\<rparr>"
    by (simp add: pasteClipboard_text cloneText_def offset_def)
next
  fix line
  assume "clipboard s = Some (ClipLine line)
          \<and> l_x1 line = 0.1 \<and> l_y1 line = 0.1 \<and> l_x2 line = 0.2 \<and> l_y2 line = 0.2"
  then show "let new = last (lines (pasteClipboard now s))
         in l_x1 new = 0.12 \<and> l_y1 new = 0.12 \<and> l_x2 new = 0.22 \<and> l_y2 new = 0.22
            \<and> l_id new = now \<and> (l_id new \<noteq> l_id line) = (now \<noteq> l_id line)
            \<and> selectedLineId (pasteClipboard now s) = Some now"
    by (simp add: pasteClipboard_line cloneLine_def offset_def Let_def)
qed

theorem pasteClipboard_clone_witness:
  "clipboard (initApp\<lparr>clipboard := Some (ClipLine demoLine)\<rparr>) = Some (ClipLine demoLine)
   \<and> l_x1 demoLine = 0.1 \<and> l_y1 demoLine = 0.1 \<and> l_x2 demoLine = 0.2 \<and> l_y2 demoLine = 0.2
   \<and> l_id demoLine = 7
   \<and> (let new = last (lines (pasteClipboard 8 (initApp\<lparr>clipboard := Some (ClipLine demoLine)\<rparr>)))
      in l_x1 new = 0.12 \<and> l_y1 new = 0.12 \<and> l_x2 new = 0.22 \<and> l_y2 new = 0.22
         \<and> l_id new = 8)
   \<and> selectedLineId (pasteClipboard 8 (initApp\<lparr>clipboard := Some (ClipLine demoLine)\<rparr>))
       = Some 8"
proof -
  have h: "clipboard (initApp\<lparr>clipboard := Some (ClipLine demoLine)\<rparr>) = Some (ClipLine demoLine)
      \<and> l_x1 demoLine = 0.1 \<and> l_y1 demoLine = 0.1 \<and> l_x2 demoLine = 0.2 \<and> l_y2 demoLine = 0.2"
    by (simp add: demoLine_def)
  have i: "l_id demoLine = 7" by (simp add: demoLine_def)
  from pasteClipboard_clone [of "initApp\<lparr>clipboard := Some (ClipLine demoLine)\<rparr>" 8] h
  have "let new = last (lines (pasteClipboard 8 (initApp\<lparr>clipboard := Some (ClipLine demoLine)\<rparr>)))
         in l_x1 new = 0.12 \<and> l_y1 new = 0.12 \<and> l_x2 new = 0.22 \<and> l_y2 new = 0.22
            \<and> l_id new = 8 \<and> (l_id new \<noteq> l_id demoLine) = ((8::int) \<noteq> l_id demoLine)
            \<and> selectedLineId (pasteClipboard 8 (initApp\<lparr>clipboard := Some (ClipLine demoLine)\<rparr>))
                = Some 8"
    by blast
  with h i show ?thesis by (simp add: Let_def)
qed

text \<open>
  C10. Paste leaves the clipboard slot as it is. With a non-empty clipboard, two
  consecutive pastes append two clones of the clipboard entity that differ in their id
  only: each has \<open>min(1, v + 0.02)\<close> in place of every positional field \<open>v\<close> of the
  clipboard entity, so the second copy lies exactly on the first.
\<close>

theorem pasteClipboard_repeat:
  "clipboard (pasteClipboard now s) = clipboard s
   \<and> (\<forall>line. clipboard s = Some (ClipLine line) \<longrightarrow>
        lines (pasteClipboard n2 (pasteClipboard n1 s))
          = lines s @ [cloneLine n1 line, cloneLine n2 line]
        \<and> cloneLine n2 line = (cloneLine n1 line)\<lparr>l_id := n2\<rparr>
        \<and> l_x1 (cloneLine n1 line) = min 1 (l_x1 line + 0.02)
        \<and> l_y1 (cloneLine n1 line) = min 1 (l_y1 line + 0.02)
        \<and> l_x2 (cloneLine n1 line) = min 1 (l_x2 line + 0.02)
        \<and> l_y2 (cloneLine n1 line) = min 1 (l_y2 line + 0.02))
   \<and> (\<forall>area. clipboard s = Some (ClipArea area) \<longrightarrow>
        areas (pasteClipboard n2 (pasteClipboard n1 s))
          = areas s @ [cloneArea n1 area, cloneArea n2 area]
        \<and> cloneArea n2 area = (cloneArea n1 area)\<lparr>a_id := n2\<rparr>
        \<and> a_points (cloneArea n1 area)
            = map (\<lambda>p. \<lparr>p_x = min 1 (p_x p + 0.02), p_y = min 1 (p_y p + 0.02)\<rparr>)
                (a_points area))
   \<and> (\<forall>box. clipboard s = Some (ClipText box) \<longrightarrow>
        textBoxes (pasteClipboard n2 (pasteClipboard n1 s))
          = textBoxes s @ [cloneText n1 box, cloneText n2 box]
        \<and> cloneText n2 box = (cloneText n1 box)\<lparr>t_id := n2\<rparr>
        \<and> t_x (cloneText n1 box) = min 1 (t_x box + 0.02)
        \<and> t_y (cloneText n1 box) = min 1 (t_y box + 0.02))"
proof (intro conjI allI impI)
  show "clipboard (pasteClipboard now s) = clipboard s"
    by (rule clipboard_pasteClipboard)
next
  fix line assume c: "clipboard s = Some (ClipLine line)"
  then have "clipboard (pasteClipboard n1 s) = Some (ClipLine line)"
    by (simp add: clipboard_pasteClipboard)
  then show "lines (pasteClipboard n2 (pasteClipboard n1 s))
          = lines s @ [cloneLine n1 line, cloneLine n2 line]"
    by (simp add: pasteClipboard_line c)
next
  fix area assume c: "clipboard s = Some (ClipArea area)"
  then have "clipboard (pasteClipboard n1 s) = Some (ClipArea area)"
    by (simp add: clipboard_pasteClipboard)
  then show "areas (pasteClipboard n2 (pasteClipboard n1 s))
          = areas s @ [cloneArea n1 area, cloneArea n2 area]"
    by (simp add: pasteClipboard_area c)
next
  fix box assume c: "clipboard s = Some (ClipText box)"
  then have "clipboard (pasteClipboard n1 s) = Some (ClipText box)"
    by (simp add: clipboard_pasteClipboard)
  then show "textBoxes (pasteClipboard n2 (pasteClipboard n1 s))
          = textBoxes s @ [cloneText n1 box, cloneText n2 box]"
    by (simp add: pasteClipboard_text c)
qed (simp_all add: cloneLine_def cloneArea_def cloneText_def offset_def)

theorem pasteClipboard_repeat_witness:
  "clipboard (initApp\<lparr>clipboard := Some (ClipLine demoLine)\<rparr>) = Some (ClipLine demoLine)
   \<and> map l_id (lines (pasteClipboard 9 (pasteClipboard 8
         (initApp\<lparr>clipboard := Some (ClipLine demoLine)\<rparr>)))) = [8, 9]
   \<and> map l_x1 (lines (pasteClipboard 9 (pasteClipboard 8
         (initApp\<lparr>clipboard := Some (ClipLine demoLine)\<rparr>)))) = [0.12, 0.12]
   \<and> map l_x2 (lines (pasteClipboard 9 (pasteClipboard 8
         (initApp\<lparr>clipboard := Some (ClipLine demoLine)\<rparr>)))) = [0.22, 0.22]"
proof -
  have c: "clipboard (initApp\<lparr>clipboard := Some (ClipLine demoLine)\<rparr>)
             = Some (ClipLine demoLine)"
    by simp
  from pasteClipboard_repeat [of 0 "initApp\<lparr>clipboard := Some (ClipLine demoLine)\<rparr>" 9 8] c
  have "lines (pasteClipboard 9 (pasteClipboard 8
           (initApp\<lparr>clipboard := Some (ClipLine demoLine)\<rparr>)))
        = lines (initApp\<lparr>clipboard := Some (ClipLine demoLine)\<rparr>)
            @ [cloneLine 8 demoLine, cloneLine 9 demoLine]"
    by blast
  then show ?thesis
    using c by (simp add: cloneLine_def demoLine_def offset_def initApp_def)
qed

section \<open>Duplicate against copy and paste\<close>

lemma duplicateSelected_line:
  "selectedLineId s = Some sel \<Longrightarrow> find (\<lambda>l. l_id l = sel) (lines s) = Some line \<Longrightarrow>
   duplicateSelected now s
     = s\<lparr>lines := lines s @ [cloneLine now line], selectedLineId := Some now\<rparr>"
  by (simp add: duplicateSelected_def)

lemma duplicateSelected_area:
  "selectedLineId s = None \<Longrightarrow> selectedAreaId s = Some sel \<Longrightarrow>
   find (\<lambda>a. a_id a = sel) (areas s) = Some area \<Longrightarrow>
   duplicateSelected now s
     = s\<lparr>areas := areas s @ [cloneArea now area], selectedAreaId := Some now\<rparr>"
  by (simp add: duplicateSelected_def)

lemma duplicateSelected_text:
  "selectedLineId s = None \<Longrightarrow> selectedAreaId s = None \<Longrightarrow> selectedTextId s = Some sel \<Longrightarrow>
   find (\<lambda>b. t_id b = sel) (textBoxes s) = Some box \<Longrightarrow>
   duplicateSelected now s
     = s\<lparr>textBoxes := textBoxes s @ [cloneText now box], selectedTextId := Some now\<rparr>"
  by (simp add: duplicateSelected_def)

lemma copySelection_line:
  "selectedLineId s = Some sel \<Longrightarrow> find (\<lambda>l. l_id l = sel) (lines s) = Some line \<Longrightarrow>
   copySelection s = s\<lparr>clipboard := Some (ClipLine line)\<rparr>"
  by (simp add: copySelection_def)

lemma copySelection_area:
  "selectedLineId s = None \<Longrightarrow> selectedAreaId s = Some sel \<Longrightarrow>
   find (\<lambda>a. a_id a = sel) (areas s) = Some area \<Longrightarrow>
   copySelection s = s\<lparr>clipboard := Some (ClipArea area)\<rparr>"
  by (simp add: copySelection_def)

lemma copySelection_text:
  "selectedLineId s = None \<Longrightarrow> selectedAreaId s = None \<Longrightarrow> selectedTextId s = Some sel \<Longrightarrow>
   find (\<lambda>b. t_id b = sel) (textBoxes s) = Some box \<Longrightarrow>
   copySelection s = s\<lparr>clipboard := Some (ClipText box)\<rparr>"
  by (simp add: copySelection_def)

lemma clipboard_duplicateSelected: "clipboard (duplicateSelected now s) = clipboard s"
  by (simp add: duplicateSelected_def split: option.splits)

lemma oneSelected_cases:
  assumes "oneSelected s"
  obtains
    (isLine) sel line where "selectedLineId s = Some sel" "selectedAreaId s = None"
      "selectedTextId s = None" "find (\<lambda>l. l_id l = sel) (lines s) = Some line"
  | (isArea) sel area where "selectedLineId s = None" "selectedAreaId s = Some sel"
      "selectedTextId s = None" "find (\<lambda>a. a_id a = sel) (areas s) = Some area"
  | (isText) sel box where "selectedLineId s = None" "selectedAreaId s = None"
      "selectedTextId s = Some sel" "find (\<lambda>b. t_id b = sel) (textBoxes s) = Some box"
  using assms by (auto simp: oneSelected_def split: option.splits)

text \<open>
  Where a single selection id is set and names an entity of its collection,
  \<open>duplicateSelected\<close> and \<open>copySelection\<close> followed by \<open>pasteClipboard\<close> at the same
  clock reading leave the same three collections and the same three selection ids;
  \<open>duplicateSelected\<close> never touches the clipboard slot.
\<close>

lemma duplicateSelected_single_selection:
  "(oneSelected s \<longrightarrow>
      lines (duplicateSelected now s) = lines (pasteClipboard now (copySelection s))
      \<and> areas (duplicateSelected now s) = areas (pasteClipboard now (copySelection s))
      \<and> textBoxes (duplicateSelected now s)
          = textBoxes (pasteClipboard now (copySelection s))
      \<and> selectedLineId (duplicateSelected now s)
          = selectedLineId (pasteClipboard now (copySelection s))
      \<and> selectedAreaId (duplicateSelected now s)
          = selectedAreaId (pasteClipboard now (copySelection s))
      \<and> selectedTextId (duplicateSelected now s)
          = selectedTextId (pasteClipboard now (copySelection s))
      \<and> length (lines (duplicateSelected now s)) + length (areas (duplicateSelected now s))
          + length (textBoxes (duplicateSelected now s))
          = length (lines s) + length (areas s) + length (textBoxes s) + 1
      \<and> clipboard (pasteClipboard now (copySelection s)) \<noteq> None)
   \<and> clipboard (duplicateSelected now s) = clipboard s"
proof (intro conjI impI)
  show "clipboard (duplicateSelected now s) = clipboard s"
    by (rule clipboard_duplicateSelected)
next
  assume one: "oneSelected s"
  then have all:
     "lines (duplicateSelected now s) = lines (pasteClipboard now (copySelection s))
      \<and> areas (duplicateSelected now s) = areas (pasteClipboard now (copySelection s))
      \<and> textBoxes (duplicateSelected now s)
          = textBoxes (pasteClipboard now (copySelection s))
      \<and> selectedLineId (duplicateSelected now s)
          = selectedLineId (pasteClipboard now (copySelection s))
      \<and> selectedAreaId (duplicateSelected now s)
          = selectedAreaId (pasteClipboard now (copySelection s))
      \<and> selectedTextId (duplicateSelected now s)
          = selectedTextId (pasteClipboard now (copySelection s))
      \<and> length (lines (duplicateSelected now s)) + length (areas (duplicateSelected now s))
          + length (textBoxes (duplicateSelected now s))
          = length (lines s) + length (areas s) + length (textBoxes s) + 1
      \<and> clipboard (pasteClipboard now (copySelection s)) \<noteq> None"
  proof (cases rule: oneSelected_cases)
    case (isLine sel line)
    then show ?thesis
      by (simp add: duplicateSelected_line copySelection_line
            pasteClipboard_line [where line = line])
  next
    case (isArea sel area)
    then show ?thesis
      by (simp add: duplicateSelected_area copySelection_area
            pasteClipboard_area [where area = area])
  next
    case (isText sel box)
    then show ?thesis
      by (simp add: duplicateSelected_text copySelection_text
            pasteClipboard_text [where box = box])
  qed
  from all show "lines (duplicateSelected now s) = lines (pasteClipboard now (copySelection s))"
    by blast
  from all show "areas (duplicateSelected now s) = areas (pasteClipboard now (copySelection s))"
    by blast
  from all show "textBoxes (duplicateSelected now s)
          = textBoxes (pasteClipboard now (copySelection s))"
    by blast
  from all show "selectedLineId (duplicateSelected now s)
          = selectedLineId (pasteClipboard now (copySelection s))"
    by blast
  from all show "selectedAreaId (duplicateSelected now s)
          = selectedAreaId (pasteClipboard now (copySelection s))"
    by blast
  from all show "selectedTextId (duplicateSelected now s)
          = selectedTextId (pasteClipboard now (copySelection s))"
    by blast
  from all show "length (lines (duplicateSelected now s))
          + length (areas (duplicateSelected now s))
          + length (textBoxes (duplicateSelected now s))
          = length (lines s) + length (areas s) + length (textBoxes s) + 1"
    by blast
  from all show "clipboard (pasteClipboard now (copySelection s)) \<noteq> None"
    by blast
qed

text \<open>
  C7. Evaluation of \<open>duplicateSelected\<close> where the claim fails: once line 1 and text
  box 2 are both selected (the state \<open>startLineMove\<close> leaves when it grabs the line
  while the text box is selected),
  duplicating selects the new line 9 and leaves the text box selected, while copy
  followed by paste selects the new line 9 alone. \<open>duplicateSelected\<close> sets the
  selection id of its own collection only; \<open>pasteClipboard\<close> sets the other two to
  null.
\<close>

theorem duplicateSelected_keeps_other_selection:
  "selectedLineId (run (lineThenText @ [LineDown (mouseAt 15 15) 1, MouseUp]) initApp) = Some 1
   \<and> selectedTextId (run (lineThenText @ [LineDown (mouseAt 15 15) 1, MouseUp]) initApp)
       = Some 2
   \<and> selectedTextId
        (run (lineThenText @ [LineDown (mouseAt 15 15) 1, MouseUp, Duplicate 9]) initApp)
       = Some 2
   \<and> selectedLineId
        (run (lineThenText @ [LineDown (mouseAt 15 15) 1, MouseUp, Duplicate 9]) initApp)
       = Some 9
   \<and> selectedTextId
        (run (lineThenText @ [LineDown (mouseAt 15 15) 1, MouseUp, Copy, Paste 9]) initApp)
       = None
   \<and> selectedLineId
        (run (lineThenText @ [LineDown (mouseAt 15 15) 1, MouseUp, Copy, Paste 9]) initApp)
       = Some 9
   \<and> map l_id (lines
        (run (lineThenText @ [LineDown (mouseAt 15 15) 1, MouseUp, Duplicate 9]) initApp))
       = [1, 9]
   \<and> lines (run (lineThenText @ [LineDown (mouseAt 15 15) 1, MouseUp, Duplicate 9]) initApp)
       = lines (run (lineThenText @ [LineDown (mouseAt 15 15) 1, MouseUp, Copy, Paste 9])
                  initApp)"
  by (simp add: lineThenText_def handler_defs demo_defs Let_def cloneLine_def)

section \<open>Dragging\<close>

lemma dragLine_id [simp]: "l_id (dragLine mode st dx dy line) = l_id line"
  by (simp add: dragLine_def)


lemma dragArea_id [simp]: "a_id (dragArea mode st dx dy area) = a_id area"
  by (simp add: dragArea_def split: list.splits)

lemma dragArea_type [simp]: "a_type (dragArea mode st dx dy area) = a_type area"
  by (simp add: dragArea_def split: list.splits)


lemma dragText_id [simp]: "t_id (dragText mode st dx dy box) = t_id box"
  by (simp add: dragText_def)




subsection \<open>States with the same refs\<close>

lemma sameRefs_refl [simp]: "sameRefs s s"
  by (simp add: sameRefs_def)

lemma sameRefsD:
  assumes "sameRefs u s"
  shows "u = s\<lparr>lines := lines u, areas := areas u, textBoxes := textBoxes u,
              pendingDrags := pendingDrags u\<rparr>"
proof -
  from assms have e: "u\<lparr>lines := lines s, areas := areas s, textBoxes := textBoxes s,
       pendingDrags := pendingDrags s\<rparr> = s"
    by (simp add: sameRefs_def)
  have "s\<lparr>lines := lines u, areas := areas u, textBoxes := textBoxes u,
              pendingDrags := pendingDrags u\<rparr>
        = (u\<lparr>lines := lines s, areas := areas s, textBoxes := textBoxes s,
             pendingDrags := pendingDrags s\<rparr>)
          \<lparr>lines := lines u, areas := areas u, textBoxes := textBoxes u,
              pendingDrags := pendingDrags u\<rparr>"
    by (simp only: e)
  also have "\<dots> = u" by simp
  finally show ?thesis by simp
qed

lemma sameRefsI:
  "u = s\<lparr>lines := ls, areas := as, textBoxes := bs, pendingDrags := q\<rparr> \<Longrightarrow> sameRefs u s"
  by (simp add: sameRefs_def)

lemma sameRefs_trans: "sameRefs a b \<Longrightarrow> sameRefs b c \<Longrightarrow> sameRefs a c"
proof -
  assume "sameRefs a b" "sameRefs b c"
  then have a: "a = b\<lparr>lines := lines a, areas := areas a, textBoxes := textBoxes a,
              pendingDrags := pendingDrags a\<rparr>"
    and b: "b = c\<lparr>lines := lines b, areas := areas b, textBoxes := textBoxes b,
              pendingDrags := pendingDrags b\<rparr>"
    by (auto dest: sameRefsD)
  have "a = c\<lparr>lines := lines a, areas := areas a, textBoxes := textBoxes a,
              pendingDrags := pendingDrags a\<rparr>"
    by (subst a, subst b) simp
  then show "sameRefs a c" by (rule sameRefsI)
qed

lemma sameRefs_pending: "sameRefs u s \<Longrightarrow> sameRefs (u\<lparr>pendingDrags := q\<rparr>) s"
  by (simp add: sameRefs_def)




lemma sameRefs_runPendingDrag: "sameRefs (runPendingDrag p u) u"
  by (cases p) (simp_all add: sameRefs_def)

lemma sameRefs_fold: "sameRefs (fold runPendingDrag ps u) u"
proof (induction ps arbitrary: u)
  case Nil
  show ?case by simp
next
  case (Cons p ps)
  have "sameRefs (fold runPendingDrag ps (runPendingDrag p u)) (runPendingDrag p u)"
    by (rule Cons.IH)
  then show ?case
    using sameRefs_runPendingDrag [of p u] by (auto intro: sameRefs_trans)
qed

lemma sameRefs_flushUpdates: "sameRefs (flushUpdates u) u"
  unfolding flushUpdates_def by (rule sameRefs_pending) (rule sameRefs_fold)

subsection \<open>A later drag update overwrites an earlier one\<close>









subsection \<open>The six kinds of drag\<close>







text \<open>
  A pointer move whose updater React runs only after the pointer has gone up is lost:
  \<open>endPanOrDraw\<close> has reset the refs the updater reads, so it leaves every line as it
  is. With a render between the move and the pointer up the line is moved.
\<close>

lemma pointer_up_before_render_drops_move:
  "lines (run (lineAreaText @
       [LineDown (mouseAt 15 15) 1, MouseMove (mouseAt 25 35) demoRect, MouseUp, Render])
       initApp) = [sessionLine]
   \<and> lines (run (lineAreaText @
       [LineDown (mouseAt 15 15) 1, MouseMove (mouseAt 25 35) demoRect, Render, MouseUp])
       initApp) = [sessionLine\<lparr>l_x1 := 0.2, l_y1 := 0.3, l_x2 := 0.3, l_y2 := 0.4\<rparr>]"
  by (simp add: lineAreaText_def handler_defs demo_defs Let_def sessionLine_def
        drawArea_def dragLine_def)

text \<open>
  The drag branches of \<open>handleMouseMove\<close> are tried in the order line, area, text and
  the first whose test holds returns: a pointer down on an area while a line drag is
  still in progress leaves the area where it is, and the moves go to the line.
\<close>

lemma line_drag_served_first:
  "areas (run (lineAreaText @
       [LineDown (mouseAt 15 15) 1, AreaDown (mouseAt 45 45) 3,
        MouseMove (mouseAt 55 55) demoRect, Render])
       initApp) = [sessionArea]
   \<and> lines (run (lineAreaText @
       [LineDown (mouseAt 15 15) 1, AreaDown (mouseAt 45 45) 3,
        MouseMove (mouseAt 55 55) demoRect, Render])
       initApp) = [sessionLine\<lparr>l_x1 := 0.5, l_y1 := 0.5, l_x2 := 0.6, l_y2 := 0.6\<rparr>]"
  by (simp add: lineAreaText_def handler_defs demo_defs Let_def sessionLine_def
        sessionArea_def drawArea_def dragLine_def dragArea_def)

subsection \<open>Dragging: the net pointer delta\<close>




section \<open>Identifiers\<close>

lemma created_nil:
  "length (lines s') \<le> length (lines s) \<Longrightarrow> length (areas s') \<le> length (areas s) \<Longrightarrow>
   length (textBoxes s') \<le> length (textBoxes s) \<Longrightarrow> created s s' = []"
  by (simp add: created_def)

lemma created_same [simp]: "created s s = []"
  by (simp add: created_def)

lemma created_handleMouseDown:
  "created s (handleMouseDown now e rect s) = []
   \<or> created s (handleMouseDown now e rect s) = [now]"
  by (simp add: handleMouseDown_def created_def clearSelection_def Let_def)

lemma created_handleMouseMove: "created s (handleMouseMove e rect s) = []"
  by (rule created_nil) (simp_all add: handleMouseMove_def Let_def)

lemma length_runPendingDrag [simp]:
  "length (lines (runPendingDrag p s)) = length (lines s)"
  "length (areas (runPendingDrag p s)) = length (areas s)"
  "length (textBoxes (runPendingDrag p s)) = length (textBoxes s)"
  by (cases p; simp)+

lemma length_fold_runPendingDrag [simp]:
  "length (lines (fold runPendingDrag q s)) = length (lines s)"
  "length (areas (fold runPendingDrag q s)) = length (areas s)"
  "length (textBoxes (fold runPendingDrag q s)) = length (textBoxes s)"
  by (induction q arbitrary: s; simp)+

lemma created_flushUpdates: "created s (flushUpdates s) = []"
  by (rule created_nil) (simp_all add: flushUpdates_def)

lemma created_endPanOrDraw: "created s (endPanOrDraw s) = []"
  by (rule created_nil) (simp_all add: endPanOrDraw_def)

lemma created_startLineMove: "created s (startLineMove e lineId s) = []"
  by (rule created_nil) (simp_all add: startLineMove_def split: option.splits)

lemma created_startHandleDrag: "created s (startHandleDrag e lineId endpoint s) = []"
  by (rule created_nil) (simp_all add: startHandleDrag_def split: option.splits)

lemma created_startAreaMove: "created s (startAreaMove e areaId s) = []"
  by (rule created_nil) (simp_all add: startAreaMove_def split: option.splits)

lemma created_startAreaHandleDrag: "created s (startAreaHandleDrag e areaId endpoint s) = []"
  by (rule created_nil) (simp_all add: startAreaHandleDrag_def split: option.splits)

lemma created_onTextBox:
  "created s (onTextBox k (textBoxMouseDown e) s) = []"
  "created s (onTextBox k textBoxDoubleClick s) = []"
  "created s (onTextBox k (textCornerMouseDown e) s) = []"
  by (rule created_nil;
      simp add: onTextBox_def textBoxMouseDown_def textBoxDoubleClick_def
        textCornerMouseDown_def)+

lemma collections_copySelection [simp]:
  "lines (copySelection s) = lines s" "areas (copySelection s) = areas s"
  "textBoxes (copySelection s) = textBoxes s"
  by (simp_all add: copySelection_def split: option.splits)

lemma selection_copySelection [simp]:
  "selectedLineId (copySelection s) = selectedLineId s"
  "selectedAreaId (copySelection s) = selectedAreaId s"
  "selectedTextId (copySelection s) = selectedTextId s"
  by (simp_all add: copySelection_def split: option.splits)

lemma created_copySelection: "created s (copySelection s) = []"
  by (rule created_nil) simp_all

lemma created_deleteSelected: "created s (deleteSelected s) = []"
  by (rule created_nil) (simp_all add: deleteSelected_def split: option.splits)

lemma created_cutSelection: "created s (cutSelection s) = []"
proof -
  have "created (copySelection s) (deleteSelected (copySelection s)) = []"
    by (rule created_deleteSelected)
  then show ?thesis
    by (simp add: created_def cutSelection_def)
qed

lemma created_pasteClipboard:
  "created s (pasteClipboard now s) = [] \<or> created s (pasteClipboard now s) = [now]"
  by (simp add: pasteClipboard_def created_def cloneLine_def cloneArea_def cloneText_def
        split: option.splits Clipboard.splits)

lemma created_duplicateSelected:
  "created s (duplicateSelected now s) = [] \<or> created s (duplicateSelected now s) = [now]"
  by (simp add: duplicateSelected_def created_def cloneLine_def cloneArea_def cloneText_def
        split: option.splits)

lemma created_handleFileChange: "created s (handleFileChange r s) = []"
  by (rule created_nil)
     (simp_all add: handleFileChange_def Let_def split: FileLoad.splits option.splits)

lemma created_step: "created s (step ev s) = [] \<or> created s (step ev s) = clock ev"
proof (cases ev)
  case (MouseDown now e rect)
  then show ?thesis using created_handleMouseDown [of s now e rect] by simp
next
  case (Paste now)
  then show ?thesis using created_pasteClipboard [of s now] by simp
next
  case (Duplicate now)
  then show ?thesis using created_duplicateSelected [of s now] by simp
qed (simp_all add: created_handleMouseMove created_endPanOrDraw created_startLineMove
       created_startHandleDrag created_startAreaMove created_startAreaHandleDrag
       created_onTextBox created_copySelection created_cutSelection created_deleteSelected
       created_handleFileChange created_flushUpdates created_nil)

lemma minted_subseq: "subseq (minted evs s) (concat (map clock evs))"
proof (induction evs arbitrary: s)
  case Nil
  show ?case by simp
next
  case (Cons ev evs)
  have "subseq (created s (step ev s)) (clock ev)"
    using created_step [of s ev] by auto
  then have "subseq (created s (step ev s) @ minted evs (step ev s))
               (clock ev @ concat (map clock evs))"
    by (rule list_emb_append_mono) (rule Cons.IH)
  then show ?case by simp
qed

lemma subseq_sorted_wrt:
  "subseq xs ys \<Longrightarrow> sorted_wrt P ys \<Longrightarrow> sorted_wrt P xs"
proof (induction rule: list_emb.induct)
  case (list_emb_Nil ys)
  show ?case by simp
next
  case (list_emb_Cons xs ys y)
  then show ?case by simp
next
  case (list_emb_Cons2 x y xs ys)
  from list_emb_Cons2.hyps(2) have "set xs \<subseteq> set ys"
    by (auto dest: list_emb_set)
  with list_emb_Cons2 show ?case by auto
qed

text \<open>
  C4, as stated, fails when two creations read the same clock value: after drawing a
  line at reading 5 and copying it, a paste and a duplication that both read 6 mint the
  id 6 twice.
\<close>

theorem minted_ids_collide:
  "concat (map clock (drawLine @ [Copy, Paste 6, Duplicate 6])) = [5, 6, 6]
   \<and> minted (drawLine @ [Copy, Paste 6, Duplicate 6]) initApp = [5, 6, 6]
   \<and> map l_id (lines (run (drawLine @ [Copy, Paste 6, Duplicate 6]) initApp)) = [5, 6, 6]
   \<and> \<not> distinct (minted (drawLine @ [Copy, Paste 6, Duplicate 6]) initApp)"
  by (simp add: drawLine_def handler_defs demo_defs Let_def created_def cloneLine_def)

text \<open>
  C4, amended. Every id minted in a session (by a line, area or text creation, a
  duplication or a paste) is the clock reading \<open>Date.now()\<close> of its event, and the
  minted ids follow the order of the events: they form a subsequence of the clock
  readings of the session. So creation order implies id order as far as the clock
  does: with non-decreasing readings a later id is greater or equal, and when the
  readings are strictly increasing the ids are strictly increasing and pairwise
  distinct.
\<close>

theorem minted_ids_follow_clock:
  "subseq (minted evs s) (concat (map clock evs))
   \<and> (sorted (concat (map clock evs)) \<longrightarrow> sorted (minted evs s))
   \<and> (sorted_wrt (<) (concat (map clock evs)) \<longrightarrow>
        sorted_wrt (<) (minted evs s) \<and> distinct (minted evs s))"
proof (intro conjI impI)
  show "subseq (minted evs s) (concat (map clock evs))"
    by (rule minted_subseq)
next
  assume "sorted (concat (map clock evs))"
  with minted_subseq [of evs s] show "sorted (minted evs s)"
    by (rule subseq_sorted_wrt)
next
  assume "sorted_wrt (<) (concat (map clock evs))"
  with minted_subseq [of evs s] show st: "sorted_wrt (<) (minted evs s)"
    by (rule subseq_sorted_wrt)
  then show "distinct (minted evs s)"
    by (simp add: strict_sorted_iff)
qed

theorem minted_ids_follow_clock_witness:
  "sorted_wrt (<) (concat (map clock (drawLine @ [Copy, Paste 6, Duplicate 7])))
   \<and> minted (drawLine @ [Copy, Paste 6, Duplicate 7]) initApp = [5, 6, 7]
   \<and> sorted_wrt (<) (minted (drawLine @ [Copy, Paste 6, Duplicate 7]) initApp)
   \<and> distinct (minted (drawLine @ [Copy, Paste 6, Duplicate 7]) initApp)"
proof -
  have c: "sorted_wrt (<) (concat (map clock (drawLine @ [Copy, Paste 6, Duplicate 7])))"
    by (simp add: drawLine_def)
  have m: "minted (drawLine @ [Copy, Paste 6, Duplicate 7]) initApp = [5, 6, 7]"
    by (simp add: drawLine_def handler_defs demo_defs Let_def created_def cloneLine_def)
  from minted_ids_follow_clock [of "drawLine @ [Copy, Paste 6, Duplicate 7]" initApp] c
  have "sorted_wrt (<) (minted (drawLine @ [Copy, Paste 6, Duplicate 7]) initApp)
        \<and> distinct (minted (drawLine @ [Copy, Paste 6, Duplicate 7]) initApp)"
    by blast
  with c m show ?thesis by blast
qed

section \<open>Positions and the unit square\<close>

text \<open>
  C6. The fields of a line are documented as normalized coordinates between 0 and 1
  (App.tsx 21, 39, 60), and the drawing branch of \<open>handleMouseMove\<close> clamps the pointer
  to the canvas (App.tsx 1028--1029); the drag branches add the net pointer delta to
  the snapshot with no clamp (App.tsx 892--918). On a canvas of 100 by 100 px the line
  drawn from (10,10) to (20,20) is grabbed at (15,15) and moved with the pointer at the
  left edge of the canvas, (0,15): its first endpoint ends at x = -0.05.
\<close>

theorem drag_leaves_unit_square:
  "positionsInUnit (run lineThenText initApp)
   \<and> map l_x1 (lines (run (lineThenText @
         [LineDown (mouseAt 15 15) 1, MouseMove (mouseAt 0 15) demoRect, Render, MouseUp])
         initApp)) = [- 0.05]
   \<and> map l_x2 (lines (run (lineThenText @
         [LineDown (mouseAt 15 15) 1, MouseMove (mouseAt 0 15) demoRect, Render, MouseUp])
         initApp)) = [0.05]
   \<and> \<not> positionsInUnit (run (lineThenText @
         [LineDown (mouseAt 15 15) 1, MouseMove (mouseAt 0 15) demoRect, Render, MouseUp])
         initApp)"
  by (simp add: lineThenText_def handler_defs demo_defs Let_def dragLine_def
        positionsInUnit_def lineInUnit_def areaInUnit_def textInUnit_def unitCoord_def)

end
